theory Spec2Isabelle
  imports Main
begin

unbundle bit_operations_syntax

section \<open>Server renderer: the output buffer\<close>

text \<open>
  Source: \<^verbatim>\<open>packages/server-renderer/src/index.ts\<close>.

  \<^verbatim>\<open>type SSRBufferItem = string | ResolvedSSRBuffer | Promise<SSRBuffer>\<close>,
  \<^verbatim>\<open>type ResolvedSSRBuffer = (string | ResolvedSSRBuffer)[]\<close>.
  Strings are sequences of code units; the model uses \<^typ>\<open>string\<close>, so it
  covers the strings whose code units are below 256.
  A promise is modelled by the resolved buffer it is fulfilled with: that is what
  \<^verbatim>\<open>Promise.all(buffer)\<close> puts in its place.
\<close>

datatype ResolvedSSRBufferItem =
    RString string
  | RBuffer "ResolvedSSRBufferItem list"

datatype SSRBufferItem =
    IString string
  | IBuffer "ResolvedSSRBufferItem list"
  | IPromise "ResolvedSSRBufferItem list"

text \<open>The closure of \<^verbatim>\<open>createBuffer\<close>: the array and the two captured flags.\<close>

record SSRBufferState =
  buffer :: "SSRBufferItem list"
  appendable :: bool
  hasAsync :: bool

definition createBuffer :: SSRBufferState where
  "createBuffer = \<lparr>buffer = [], appendable = False, hasAsync = False\<rparr>"

fun isString :: "SSRBufferItem \<Rightarrow> bool" where
  "isString (IString _) = True"
| "isString _ = False"

fun isArray :: "SSRBufferItem \<Rightarrow> bool" where
  "isArray (IBuffer _) = True"
| "isArray _ = False"

text \<open>
  JavaScript's string conversion of a buffer entry, which \<^verbatim>\<open>+=\<close> applies to its
  left operand: an array is the comma-joined conversion of its elements, a promise is
  \<^verbatim>\<open>[object Promise]\<close>.
\<close>

fun resolvedToString :: "ResolvedSSRBufferItem \<Rightarrow> string"
  and joinResolved :: "ResolvedSSRBufferItem list \<Rightarrow> string" where
  "resolvedToString (RString s) = s"
| "resolvedToString (RBuffer b) = joinResolved b"
| "joinResolved [] = []"
| "joinResolved [x] = resolvedToString x"
| "joinResolved (x # y # ys) = resolvedToString x @ '','' @ joinResolved (y # ys)"

fun itemToString :: "SSRBufferItem \<Rightarrow> string" where
  "itemToString (IString s) = s"
| "itemToString (IBuffer b) = joinResolved b"
| "itemToString (IPromise _) = ''[object Promise]''"

text \<open>
  \<^verbatim>\<open>buffer[buffer.length - 1] += item\<close>. On an empty array the index is \<^verbatim>\<open>-1\<close>, which is
  not an element index: the assignment creates an ordinary property and leaves the
  elements as they are.
\<close>

fun appendToLast :: "SSRBufferItem list \<Rightarrow> string \<Rightarrow> SSRBufferItem list" where
  "appendToLast [] s = []"
| "appendToLast [x] s = [IString (itemToString x @ s)]"
| "appendToLast (x # y # ys) s = x # appendToLast (y # ys) s"

fun theString :: "SSRBufferItem \<Rightarrow> string" where
  "theString (IString s) = s"
| "theString _ = []"

definition push :: "SSRBufferItem \<Rightarrow> SSRBufferState \<Rightarrow> SSRBufferState" where
  "push item st =
     (let isStringItem = isString item;
          buf = (if appendable st \<and> isStringItem
                 then appendToLast (buffer st) (theString item)
                 else buffer st @ [item])
      in \<lparr>buffer = buf,
          appendable = isStringItem,
          hasAsync = (if \<not> isStringItem \<and> \<not> isArray item then True else hasAsync st)\<rparr>)"

text \<open>A sequence of calls of \<^verbatim>\<open>push\<close> on a fresh buffer, in order.\<close>

definition pushAll :: "SSRBufferItem list \<Rightarrow> SSRBufferState" where
  "pushAll items = foldl (\<lambda>st item. push item st) createBuffer items"

fun unrollItem :: "ResolvedSSRBufferItem \<Rightarrow> string"
  and unrollBuffer :: "ResolvedSSRBufferItem list \<Rightarrow> string" where
  "unrollItem (RString s) = s"
| "unrollItem (RBuffer b) = unrollBuffer b"
| "unrollBuffer [] = []"
| "unrollBuffer (item # rest) = unrollItem item @ unrollBuffer rest"

text \<open>
  \<^verbatim>\<open>Promise.all(buffer)\<close>, once fulfilled: strings and arrays are kept, every promise
  is replaced by its value.
\<close>

fun resolveItem :: "SSRBufferItem \<Rightarrow> ResolvedSSRBufferItem" where
  "resolveItem (IString s) = RString s"
| "resolveItem (IBuffer b) = RBuffer b"
| "resolveItem (IPromise b) = RBuffer b"

definition resolveAll :: "SSRBufferItem list \<Rightarrow> ResolvedSSRBufferItem list" where
  "resolveAll buf = map resolveItem buf"

text \<open>
  The string content of what is pushed, for the statement of the claim: every string
  of an item, nested ones included, depth first and left to right.
\<close>

fun resolvedStrings :: "ResolvedSSRBufferItem \<Rightarrow> string list" where
  "resolvedStrings (RString s) = [s]"
| "resolvedStrings (RBuffer b) = concat (map resolvedStrings b)"

definition pushedStrings :: "SSRBufferItem \<Rightarrow> string list" where
  "pushedStrings item = resolvedStrings (resolveItem item)"

fun noAdjacentStrings :: "SSRBufferItem list \<Rightarrow> bool" where
  "noAdjacentStrings (x # y # ys) =
     (\<not> (isString x \<and> isString y) \<and> noAdjacentStrings (y # ys))"
| "noAdjacentStrings _ = True"


section \<open>Reactivity: refs\<close>

text \<open>
  Source: \<^verbatim>\<open>packages/reactivity/src/ref.ts\<close>.

  A JavaScript value is a primitive or a reference to an object. \<open>RefObject a\<close> is an
  object whose \<^verbatim>\<open>_isRef\<close> property is \<^verbatim>\<open>true\<close>; \<open>Object a\<close> is any other object.
  Numbers are modelled by integers.
\<close>

datatype jsvalue =
    Undefined
  | Null
  | Boolean bool
  | Number int
  | String string
  | Function nat
  | Object nat
  | RefObject nat

text \<open>\<^verbatim>\<open>isObject\<close> of the shared utilities: \<^verbatim>\<open>val !== null && typeof val === 'object'\<close>.\<close>

fun isObject :: "jsvalue \<Rightarrow> bool" where
  "isObject (Object _) = True"
| "isObject (RefObject _) = True"
| "isObject _ = False"

fun isRef :: "jsvalue \<Rightarrow> bool" where
  "isRef (RefObject _) = True"
| "isRef _ = False"

datatype TrackOpTypes = GET
datatype TriggerOpTypes = SET

text \<open>
  \<^verbatim>\<open>track\<close> and \<^verbatim>\<open>trigger\<close> belong to \<^verbatim>\<open>./effect\<close>; the model records each call with
  its arguments, in order. The last argument of \<^verbatim>\<open>trigger\<close> is
  \<^verbatim>\<open>{ newValue: newVal }\<close> or \<^verbatim>\<open>undefined\<close>.
\<close>

datatype effect_call =
    Track nat TrackOpTypes string
  | Trigger nat TriggerOpTypes string "jsvalue option"

text \<open>
  The state the refs live in: the captured variable \<^verbatim>\<open>raw\<close> of every ref made so far,
  by the address of the ref, the next free address, and the calls made to
  \<^verbatim>\<open>track\<close> and \<^verbatim>\<open>trigger\<close>.
\<close>

record ref_world =
  raws :: "nat \<Rightarrow> jsvalue"
  next_ref :: nat
  calls :: "effect_call list"

text \<open>\<^verbatim>\<open>reactive\<close> belongs to \<^verbatim>\<open>./reactive\<close> and is a parameter of the model.\<close>

definition convert :: "(jsvalue \<Rightarrow> jsvalue) \<Rightarrow> jsvalue \<Rightarrow> jsvalue" where
  "convert reactive val = (if isObject val then reactive val else val)"

definition ref :: "(jsvalue \<Rightarrow> jsvalue) \<Rightarrow> jsvalue \<Rightarrow> ref_world \<Rightarrow> jsvalue \<times> ref_world" where
  "ref reactive raw w =
     (if isRef raw then (raw, w)
      else (RefObject (next_ref w),
            w\<lparr>raws := (raws w)(next_ref w := convert reactive raw),
              next_ref := Suc (next_ref w)\<rparr>))"

text \<open>The getter and the setter of the property \<^verbatim>\<open>value\<close> of the ref at address \<open>r\<close>.\<close>

definition get_value :: "nat \<Rightarrow> ref_world \<Rightarrow> jsvalue \<times> ref_world" where
  "get_value r w = (raws w r, w\<lparr>calls := calls w @ [Track r GET ''value'']\<rparr>)"

definition set_value ::
  "bool \<Rightarrow> (jsvalue \<Rightarrow> jsvalue) \<Rightarrow> nat \<Rightarrow> jsvalue \<Rightarrow> ref_world \<Rightarrow> ref_world" where
  "set_value DEV reactive r newVal w =
     w\<lparr>raws := (raws w)(r := convert reactive newVal),
       calls := calls w @ [Trigger r SET ''value'' (if DEV then Some newVal else None)]\<rparr>"


section \<open>Runtime core: virtual nodes\<close>

text \<open>
  Source: \<^verbatim>\<open>packages/runtime-core/src/vnode.ts\<close>.

  Decimal notation of a number, as the conversion \<^verbatim>\<open>n + ''\<close> and template literals
  produce it for integers.
\<close>

definition digitChar :: "nat \<Rightarrow> char" where
  "digitChar d = ''0123456789'' ! d"

function decimalDigits :: "nat \<Rightarrow> string \<Rightarrow> string" where
  "decimalDigits n acc =
     (let acc' = digitChar (n mod 10) # acc
      in if n div 10 = 0 then acc' else decimalDigits (n div 10) acc')"
  by pat_completeness auto
termination
  by (relation "measure fst") (auto simp: Let_def)

declare decimalDigits.simps [simp del]

definition numberToString :: "int \<Rightarrow> string" where
  "numberToString i =
     (if i < 0 then CHR ''-'' # decimalDigits (nat (- i)) [] else decimalDigits (nat i) [])"

text \<open>
  \<^verbatim>\<open>VNodeTypes\<close>: a tag name, a component (an options object or a function), or one of
  the five symbols.
\<close>

datatype VNodeTypes =
    ElementType string
  | ComponentObject nat
  | ComponentFunction nat
  | Fragment
  | Text
  | Comment
  | Portal
  | Suspense

text \<open>\<^verbatim>\<open>VNodeChild\<close>; a vnode is referred to by its address in the store.\<close>

datatype VNodeChild =
    ChildVNode nat
  | ChildString string
  | ChildNumber int
  | ChildBoolean bool
  | ChildNull
  | ChildUndefined
  | ChildArray "VNodeChild list"

text \<open>The argument \<^verbatim>\<open>children: unknown\<close> of \<^verbatim>\<open>createVNode\<close>.\<close>

datatype RawChildren =
    RawNull
  | RawArray "VNodeChild list"
  | RawObject nat
  | RawFunction nat
  | RawString string
  | RawNumber int
  | RawBoolean bool

text \<open>\<^verbatim>\<open>NormalizedChildren\<close>; \<open>DefaultSlot f\<close> is the object \<^verbatim>\<open>{ default: f }\<close>.\<close>

datatype NormalizedChildren =
    NoChildren
  | TextChildren string
  | ArrayChildren "VNodeChild list"
  | SlotsChildren nat
  | DefaultSlot nat

text \<open>
  The interface \<^verbatim>\<open>VNode\<close>. Objects the vnode only points to (props, component
  instance, suspense boundary, host nodes, app context) are addresses, \<open>None\<close> for
  \<^verbatim>\<open>null\<close>. The field \<^verbatim>\<open>_isVNode\<close> is \<^verbatim>\<open>true\<close> on every vnode and is left out.
\<close>

record VNode =
  type :: VNodeTypes
  props :: "nat option"
  key :: jsvalue
  ref_field :: jsvalue
  children :: NormalizedChildren
  component :: "nat option"
  suspense :: "nat option"
  el :: "nat option"
  anchor :: "nat option"
  target :: "nat option"
  shapeFlag :: int
  patchFlag :: int
  dynamicProps :: "string list option"
  dynamicChildren :: "nat list option"
  appContext :: "nat option"

text \<open>
  The enum \<^verbatim>\<open>ShapeFlags\<close> is declared in \<^verbatim>\<open>./shapeFlags\<close>; its values are a parameter
  of the model.
\<close>

record ShapeFlags =
  ELEMENT :: int
  FUNCTIONAL_COMPONENT :: int
  STATEFUL_COMPONENT :: int
  TEXT_CHILDREN :: int
  ARRAY_CHILDREN :: int
  SLOTS_CHILDREN :: int

text \<open>
  The store of vnode objects with the next free address, and the module variables
  \<^verbatim>\<open>blockStack\<close> and \<^verbatim>\<open>shouldTrack\<close>. Two vnodes are the same object when they have
  the same address.
\<close>

record vnode_world =
  vnodes :: "nat \<Rightarrow> VNode"
  next_vnode :: nat
  blockStack :: "nat list option list"
  shouldTrack :: bool

definition alloc_vnode :: "VNode \<Rightarrow> vnode_world \<Rightarrow> nat \<times> vnode_world" where
  "alloc_vnode v w =
     (next_vnode w, w\<lparr>vnodes := (vnodes w)(next_vnode w := v), next_vnode := Suc (next_vnode w)\<rparr>)"

text \<open>
  \<^verbatim>\<open>normalizeChildren\<close> returns the new value of \<^verbatim>\<open>vnode.children\<close> and the flag it
  ors into \<^verbatim>\<open>vnode.shapeFlag\<close>.
\<close>

fun normalizeChildren :: "ShapeFlags \<Rightarrow> RawChildren \<Rightarrow> NormalizedChildren \<times> int" where
  "normalizeChildren sf RawNull = (NoChildren, 0)"
| "normalizeChildren sf (RawArray cs) = (ArrayChildren cs, ARRAY_CHILDREN sf)"
| "normalizeChildren sf (RawObject a) = (SlotsChildren a, SLOTS_CHILDREN sf)"
| "normalizeChildren sf (RawFunction f) = (DefaultSlot f, SLOTS_CHILDREN sf)"
| "normalizeChildren sf (RawString s) = (TextChildren s, TEXT_CHILDREN sf)"
| "normalizeChildren sf (RawNumber n) = (TextChildren (numberToString n), TEXT_CHILDREN sf)"
| "normalizeChildren sf (RawBoolean b) =
     (TextChildren (if b then ''true'' else ''false''), TEXT_CHILDREN sf)"

fun trackDynamicNode :: "nat \<Rightarrow> nat list option list \<Rightarrow> nat list option list" where
  "trackDynamicNode a [] = []"
| "trackDynamicNode a [None] = [None]"
| "trackDynamicNode a [Some nodes] = [Some (nodes @ [a])]"
| "trackDynamicNode a (b # c # bs) = b # trackDynamicNode a (c # bs)"

text \<open>
  \<^verbatim>\<open>createVNode(type, null, children, patchFlag, dynamicProps)\<close>: the function with
  \<^verbatim>\<open>props === null\<close>, which skips the class and style normalisation and makes
  \<^verbatim>\<open>key\<close> and \<^verbatim>\<open>ref\<close> null. This is how \<^verbatim>\<open>normalizeVNode\<close> calls it.
\<close>

definition createVNode ::
  "ShapeFlags \<Rightarrow> VNodeTypes \<Rightarrow> RawChildren \<Rightarrow> int \<Rightarrow> string list option \<Rightarrow>
   vnode_world \<Rightarrow> nat \<times> vnode_world" where
  "createVNode sf ty chs pf dps w =
     (let sh = (case ty of
                  ElementType _ \<Rightarrow> ELEMENT sf
                | ComponentObject _ \<Rightarrow> STATEFUL_COMPONENT sf
                | ComponentFunction _ \<Rightarrow> FUNCTIONAL_COMPONENT sf
                | _ \<Rightarrow> 0);
          (nc, flag) = normalizeChildren sf chs;
          vnode = \<lparr>type = ty, props = None, key = Null, ref_field = Null,
                   children = nc, component = None, suspense = None,
                   el = None, anchor = None, target = None,
                   shapeFlag = sh OR flag, patchFlag = pf, dynamicProps = dps,
                   dynamicChildren = None, appContext = None\<rparr>;
          (a, w1) = alloc_vnode vnode w
      in if shouldTrack w1 \<and>
            (pf \<noteq> 0 \<or> sh AND STATEFUL_COMPONENT sf \<noteq> 0 \<or> sh AND FUNCTIONAL_COMPONENT sf \<noteq> 0)
         then (a, w1\<lparr>blockStack := trackDynamicNode a (blockStack w1)\<rparr>)
         else (a, w1))"

definition cloneVNode :: "nat \<Rightarrow> vnode_world \<Rightarrow> nat \<times> vnode_world" where
  "cloneVNode a w =
     (let vnode = vnodes w a
      in alloc_vnode
           \<lparr>type = type vnode, props = props vnode, key = key vnode,
            ref_field = ref_field vnode, children = children vnode,
            component = None, suspense = None, el = None, anchor = None,
            target = target vnode, shapeFlag = shapeFlag vnode,
            patchFlag = patchFlag vnode, dynamicProps = dynamicProps vnode,
            dynamicChildren = dynamicChildren vnode, appContext = appContext vnode\<rparr>
           w)"

fun normalizeVNode :: "ShapeFlags \<Rightarrow> VNodeChild \<Rightarrow> vnode_world \<Rightarrow> nat \<times> vnode_world" where
  "normalizeVNode sf ChildNull w = createVNode sf Comment RawNull 0 None w"
| "normalizeVNode sf ChildUndefined w = createVNode sf Comment RawNull 0 None w"
| "normalizeVNode sf (ChildArray cs) w = createVNode sf Fragment (RawArray cs) 0 None w"
| "normalizeVNode sf (ChildVNode a) w =
     (if el (vnodes w a) = None then (a, w) else cloneVNode a w)"
| "normalizeVNode sf (ChildString s) w = createVNode sf Text (RawString s) 0 None w"
| "normalizeVNode sf (ChildNumber n) w =
     createVNode sf Text (RawString (numberToString n)) 0 None w"
| "normalizeVNode sf (ChildBoolean b) w =
     createVNode sf Text (RawString (if b then ''true'' else ''false'')) 0 None w"

text \<open>A store with one vnode at address 0, for concrete evaluation.\<close>

definition exampleVNode :: "nat option \<Rightarrow> VNode" where
  "exampleVNode e =
     \<lparr>type = ElementType ''div'', props = None, key = Null, ref_field = Null,
      children = TextChildren ''x'', component = None, suspense = None,
      el = e, anchor = None, target = None, shapeFlag = 9, patchFlag = 0,
      dynamicProps = None, dynamicChildren = None, appContext = None\<rparr>"

definition exampleWorld :: "nat option \<Rightarrow> vnode_world" where
  "exampleWorld e =
     \<lparr>vnodes = (\<lambda>_. exampleVNode e), next_vnode = 1, blockStack = [], shouldTrack = True\<rparr>"

definition exampleShapeFlags :: ShapeFlags where
  "exampleShapeFlags =
     \<lparr>ELEMENT = 1, FUNCTIONAL_COMPONENT = 2, STATEFUL_COMPONENT = 4,
      TEXT_CHILDREN = 8, ARRAY_CHILDREN = 16, SLOTS_CHILDREN = 32\<rparr>"

section \<open>Compiler core: errors\<close>

text \<open>
  Source: \<^verbatim>\<open>packages/compiler-core/src/errors.ts\<close>. The enum \<^verbatim>\<open>ErrorCodes\<close>, in the
  order of its declaration; \<open>errorCodeNumber\<close> is the number the enum gives each
  member.
\<close>

datatype ErrorCodes =
    ABRUPT_CLOSING_OF_EMPTY_COMMENT
  | ABSENCE_OF_DIGITS_IN_NUMERIC_CHARACTER_REFERENCE
  | CDATA_IN_HTML_CONTENT
  | CHARACTER_REFERENCE_OUTSIDE_UNICODE_RANGE
  | CONTROL_CHARACTER_REFERENCE
  | DUPLICATE_ATTRIBUTE
  | END_TAG_WITH_ATTRIBUTES
  | END_TAG_WITH_TRAILING_SOLIDUS
  | EOF_BEFORE_TAG_NAME
  | EOF_IN_CDATA
  | EOF_IN_COMMENT
  | EOF_IN_SCRIPT_HTML_COMMENT_LIKE_TEXT
  | EOF_IN_TAG
  | INCORRECTLY_CLOSED_COMMENT
  | INCORRECTLY_OPENED_COMMENT
  | INVALID_FIRST_CHARACTER_OF_TAG_NAME
  | MISSING_ATTRIBUTE_VALUE
  | MISSING_END_TAG_NAME
  | MISSING_SEMICOLON_AFTER_CHARACTER_REFERENCE
  | MISSING_WHITESPACE_BETWEEN_ATTRIBUTES
  | NESTED_COMMENT
  | NONCHARACTER_CHARACTER_REFERENCE
  | NULL_CHARACTER_REFERENCE
  | SURROGATE_CHARACTER_REFERENCE
  | UNEXPECTED_CHARACTER_IN_ATTRIBUTE_NAME
  | UNEXPECTED_CHARACTER_IN_UNQUOTED_ATTRIBUTE_VALUE
  | UNEXPECTED_EQUALS_SIGN_BEFORE_ATTRIBUTE_NAME
  | UNEXPECTED_NULL_CHARACTER
  | UNEXPECTED_QUESTION_MARK_INSTEAD_OF_TAG_NAME
  | UNEXPECTED_SOLIDUS_IN_TAG
  | UNKNOWN_NAMED_CHARACTER_REFERENCE
  | X_INVALID_END_TAG
  | X_MISSING_END_TAG
  | X_MISSING_INTERPOLATION_END
  | X_MISSING_DYNAMIC_DIRECTIVE_ARGUMENT_END
  | X_ELSE_IF_NO_ADJACENT_IF
  | X_ELSE_NO_ADJACENT_IF
  | X_FOR_NO_EXPRESSION
  | X_FOR_MALFORMED_EXPRESSION

fun errorCodeNumber :: "ErrorCodes \<Rightarrow> nat" where
  "errorCodeNumber ABRUPT_CLOSING_OF_EMPTY_COMMENT = 0"
| "errorCodeNumber ABSENCE_OF_DIGITS_IN_NUMERIC_CHARACTER_REFERENCE = 1"
| "errorCodeNumber CDATA_IN_HTML_CONTENT = 2"
| "errorCodeNumber CHARACTER_REFERENCE_OUTSIDE_UNICODE_RANGE = 3"
| "errorCodeNumber CONTROL_CHARACTER_REFERENCE = 4"
| "errorCodeNumber DUPLICATE_ATTRIBUTE = 5"
| "errorCodeNumber END_TAG_WITH_ATTRIBUTES = 6"
| "errorCodeNumber END_TAG_WITH_TRAILING_SOLIDUS = 7"
| "errorCodeNumber EOF_BEFORE_TAG_NAME = 8"
| "errorCodeNumber EOF_IN_CDATA = 9"
| "errorCodeNumber EOF_IN_COMMENT = 10"
| "errorCodeNumber EOF_IN_SCRIPT_HTML_COMMENT_LIKE_TEXT = 11"
| "errorCodeNumber EOF_IN_TAG = 12"
| "errorCodeNumber INCORRECTLY_CLOSED_COMMENT = 13"
| "errorCodeNumber INCORRECTLY_OPENED_COMMENT = 14"
| "errorCodeNumber INVALID_FIRST_CHARACTER_OF_TAG_NAME = 15"
| "errorCodeNumber MISSING_ATTRIBUTE_VALUE = 16"
| "errorCodeNumber MISSING_END_TAG_NAME = 17"
| "errorCodeNumber MISSING_SEMICOLON_AFTER_CHARACTER_REFERENCE = 18"
| "errorCodeNumber MISSING_WHITESPACE_BETWEEN_ATTRIBUTES = 19"
| "errorCodeNumber NESTED_COMMENT = 20"
| "errorCodeNumber NONCHARACTER_CHARACTER_REFERENCE = 21"
| "errorCodeNumber NULL_CHARACTER_REFERENCE = 22"
| "errorCodeNumber SURROGATE_CHARACTER_REFERENCE = 23"
| "errorCodeNumber UNEXPECTED_CHARACTER_IN_ATTRIBUTE_NAME = 24"
| "errorCodeNumber UNEXPECTED_CHARACTER_IN_UNQUOTED_ATTRIBUTE_VALUE = 25"
| "errorCodeNumber UNEXPECTED_EQUALS_SIGN_BEFORE_ATTRIBUTE_NAME = 26"
| "errorCodeNumber UNEXPECTED_NULL_CHARACTER = 27"
| "errorCodeNumber UNEXPECTED_QUESTION_MARK_INSTEAD_OF_TAG_NAME = 28"
| "errorCodeNumber UNEXPECTED_SOLIDUS_IN_TAG = 29"
| "errorCodeNumber UNKNOWN_NAMED_CHARACTER_REFERENCE = 30"
| "errorCodeNumber X_INVALID_END_TAG = 31"
| "errorCodeNumber X_MISSING_END_TAG = 32"
| "errorCodeNumber X_MISSING_INTERPOLATION_END = 33"
| "errorCodeNumber X_MISSING_DYNAMIC_DIRECTIVE_ARGUMENT_END = 34"
| "errorCodeNumber X_ELSE_IF_NO_ADJACENT_IF = 35"
| "errorCodeNumber X_ELSE_NO_ADJACENT_IF = 36"
| "errorCodeNumber X_FOR_NO_EXPRESSION = 37"
| "errorCodeNumber X_FOR_MALFORMED_EXPRESSION = 38"

text \<open>
  The table \<^verbatim>\<open>errorMessages\<close>. Two codes have no entry; a missing entry reads as
  \<^verbatim>\<open>undefined\<close>, which the template literal prints as that word.
\<close>

fun errorMessages :: "ErrorCodes \<Rightarrow> string" where
  "errorMessages ABRUPT_CLOSING_OF_EMPTY_COMMENT = ''Illegal comment.''"
| "errorMessages ABSENCE_OF_DIGITS_IN_NUMERIC_CHARACTER_REFERENCE =
     ''Illegal numeric character reference: invalid character.''"
| "errorMessages CDATA_IN_HTML_CONTENT = ''CDATA section is allowed only in XML context.''"
| "errorMessages CHARACTER_REFERENCE_OUTSIDE_UNICODE_RANGE =
     ''Illegal numeric character reference: too big.''"
| "errorMessages CONTROL_CHARACTER_REFERENCE =
     ''Illegal numeric character reference: control character.''"
| "errorMessages DUPLICATE_ATTRIBUTE = ''Duplicate attribute.''"
| "errorMessages END_TAG_WITH_ATTRIBUTES = ''End tag cannot have attributes.''"
| "errorMessages END_TAG_WITH_TRAILING_SOLIDUS = ''Illegal '' @ [CHR 0x27] @ ''/'' @ [CHR 0x27] @ '' in tags.''"
| "errorMessages EOF_BEFORE_TAG_NAME = ''Unexpected EOF in tag.''"
| "errorMessages EOF_IN_CDATA = ''Unexpected EOF in CDATA section.''"
| "errorMessages EOF_IN_COMMENT = ''Unexpected EOF in comment.''"
| "errorMessages EOF_IN_SCRIPT_HTML_COMMENT_LIKE_TEXT = ''Unexpected EOF in script.''"
| "errorMessages EOF_IN_TAG = ''Unexpected EOF in tag.''"
| "errorMessages INCORRECTLY_CLOSED_COMMENT = ''Incorrectly closed comment.''"
| "errorMessages INCORRECTLY_OPENED_COMMENT = ''Incorrectly opened comment.''"
| "errorMessages INVALID_FIRST_CHARACTER_OF_TAG_NAME =
     ''Illegal tag name. Use '' @ [CHR 0x27] @ ''&lt;'' @ [CHR 0x27] @ '' to print ''
       @ [CHR 0x27] @ ''<'' @ [CHR 0x27] @ ''.''"
| "errorMessages MISSING_ATTRIBUTE_VALUE = ''Attribute value was expected.''"
| "errorMessages MISSING_END_TAG_NAME = ''End tag name was expected.''"
| "errorMessages MISSING_SEMICOLON_AFTER_CHARACTER_REFERENCE = ''Semicolon was expected.''"
| "errorMessages MISSING_WHITESPACE_BETWEEN_ATTRIBUTES = ''Whitespace was expected.''"
| "errorMessages NESTED_COMMENT =
     ''Unexpected '' @ [CHR 0x27] @ ''<!--'' @ [CHR 0x27] @ '' in comment.''"
| "errorMessages NONCHARACTER_CHARACTER_REFERENCE =
     ''Illegal numeric character reference: non character.''"
| "errorMessages NULL_CHARACTER_REFERENCE =
     ''Illegal numeric character reference: null character.''"
| "errorMessages SURROGATE_CHARACTER_REFERENCE =
     ''Illegal numeric character reference: non-pair surrogate.''"
| "errorMessages UNEXPECTED_CHARACTER_IN_ATTRIBUTE_NAME =
     ''Attribute name cannot contain U+0022 ('' @ [CHR 0x22] @ ''), U+0027 ('' @ [CHR 0x27]
       @ ''), and U+003C (<).''"
| "errorMessages UNEXPECTED_CHARACTER_IN_UNQUOTED_ATTRIBUTE_VALUE =
     ''Unquoted attribute value cannot contain U+0022 ('' @ [CHR 0x22] @ ''), U+0027 ('' @ [CHR 0x27]
       @ ''), U+003C (<), U+003D (=), and U+0060 (`).''"
| "errorMessages UNEXPECTED_EQUALS_SIGN_BEFORE_ATTRIBUTE_NAME =
     ''Attribute name cannot start with '' @ [CHR 0x27] @ ''='' @ [CHR 0x27] @ ''.''"
| "errorMessages UNEXPECTED_NULL_CHARACTER = ''undefined''"
| "errorMessages UNEXPECTED_QUESTION_MARK_INSTEAD_OF_TAG_NAME =
     [CHR 0x27] @ ''<?'' @ [CHR 0x27] @ '' is allowed only in XML context.''"
| "errorMessages UNEXPECTED_SOLIDUS_IN_TAG = ''Illegal '' @ [CHR 0x27] @ ''/'' @ [CHR 0x27] @ '' in tags.''"
| "errorMessages UNKNOWN_NAMED_CHARACTER_REFERENCE = ''Unknown entity name.''"
| "errorMessages X_INVALID_END_TAG = ''Invalid end tag.''"
| "errorMessages X_MISSING_END_TAG = ''End tag was not found.''"
| "errorMessages X_MISSING_INTERPOLATION_END = ''Interpolation end sign was not found.''"
| "errorMessages X_MISSING_DYNAMIC_DIRECTIVE_ARGUMENT_END = ''undefined''"
| "errorMessages X_ELSE_IF_NO_ADJACENT_IF = ''v-else-if has no adjacent v-if''"
| "errorMessages X_ELSE_NO_ADJACENT_IF = ''v-else has no adjacent v-if''"
| "errorMessages X_FOR_NO_EXPRESSION = ''v-for has no expression''"
| "errorMessages X_FOR_MALFORMED_EXPRESSION = ''v-for has invalid expression''"

record Position =
  offset :: int
  line :: int
  column :: int

record CompilerError =
  code :: ErrorCodes
  loc :: Position
  message :: string

text \<open>The build flags \<^verbatim>\<open>__DEV__\<close> and \<^verbatim>\<open>__BROWSER__\<close> are parameters.\<close>

definition createCompilerError :: "bool \<Rightarrow> bool \<Rightarrow> ErrorCodes \<Rightarrow> Position \<Rightarrow> CompilerError" where
  "createCompilerError DEV BROWSER c l =
     \<lparr>code = c, loc = l,
      message = (if DEV \<or> \<not> BROWSER then errorMessages c else numberToString (int (errorCodeNumber c)))
                @ '' ('' @ numberToString (line l) @ '':'' @ numberToString (column l) @ '')''\<rparr>"

section \<open>Compiler core: the \<^verbatim>\<open>v-for\<close> directive\<close>

text \<open>
  Source: \<^verbatim>\<open>packages/compiler-core/src/directives/vFor.ts\<close> and, for
  \<^verbatim>\<open>getInnerRange\<close>, the compiler's \<^verbatim>\<open>utils.ts\<close>.

  White space as the class \<^verbatim>\<open>\s\<close> and \<^verbatim>\<open>String.prototype.trim\<close> have it, among the code
  units below 256: tab, line feed, vertical tab, form feed, carriage return, space and
  no-break space.
\<close>

definition isWhiteSpace :: "char \<Rightarrow> bool" where
  "isWhiteSpace c \<longleftrightarrow>
     c \<in> set [CHR 0x09, CHR 0x0A, CHR 0x0B, CHR 0x0C, CHR 0x0D, CHR 0x20, CHR 0xA0]"

definition trim :: "string \<Rightarrow> string" where
  "trim s = rev (dropWhile isWhiteSpace (rev (dropWhile isWhiteSpace s)))"

text \<open>
  \<^verbatim>\<open>hay.indexOf(needle, position)\<close>: the least index at or after the position (clamped
  into the string) where the needle starts, or \<^verbatim>\<open>-1\<close>.
\<close>

fun indexOfFrom :: "string \<Rightarrow> string \<Rightarrow> nat \<Rightarrow> int" where
  "indexOfFrom needle [] k = (if needle = [] then int k else - 1)"
| "indexOfFrom needle (c # hay) k =
     (if take (length needle) (c # hay) = needle then int k
      else indexOfFrom needle hay (Suc k))"

definition indexOf :: "string \<Rightarrow> string \<Rightarrow> int \<Rightarrow> int" where
  "indexOf hay needle position =
     (let p = min (nat position) (length hay) in indexOfFrom needle (drop p hay) p)"

text \<open>
  \<^verbatim>\<open>forAliasRE = /([\s\S]*?)(?:(?<=\))|\s+)(?:in|of)\s+([\s\S]*)/\<close>.

  \<open>matchInOf\<close> matches \<^verbatim>\<open>(?:in|of)\s+([\s\S]*)\<close> at the start of its argument and returns
  the second group: the greedy \<^verbatim>\<open>\s+\<close> takes the whole run of white space and the
  group takes all the rest.
\<close>

definition matchInOf :: "string \<Rightarrow> string option" where
  "matchInOf r =
     (if take 2 r = ''in'' \<or> take 2 r = ''of''
      then (case drop 2 r of
              [] \<Rightarrow> None
            | c # _ \<Rightarrow> if isWhiteSpace c then Some (dropWhile isWhiteSpace (drop 2 r)) else None)
      else None)"

text \<open>
  \<open>matchSeparator\<close> matches \<^verbatim>\<open>(?:(?<=\))|\s+)\<close> and what follows it, the first
  alternative first. Its first argument says whether the character before the
  position is a closing parenthesis. A run of white space shorter than the whole run is
  followed by white space, where neither keyword starts, so only the whole run is
  tried.
\<close>

definition matchSeparator :: "bool \<Rightarrow> string \<Rightarrow> string option" where
  "matchSeparator afterParen r =
     (case (if afterParen then matchInOf r else None) of
        Some g \<Rightarrow> Some g
      | None \<Rightarrow>
          (case r of
             [] \<Rightarrow> None
           | c # _ \<Rightarrow> if isWhiteSpace c then matchInOf (dropWhile isWhiteSpace r) else None))"

text \<open>
  The lazy first group grows one character at a time. The match is tried from index 0
  only: a match that starts later is also a match from index 0 with a longer first
  group.
\<close>

fun forAliasRE_from :: "string \<Rightarrow> string \<Rightarrow> (string \<times> string) option" where
  "forAliasRE_from lhs r =
     (case matchSeparator (lhs \<noteq> [] \<and> last lhs = CHR '')'') r of
        Some g \<Rightarrow> Some (lhs, g)
      | None \<Rightarrow> (case r of [] \<Rightarrow> None | c # r' \<Rightarrow> forAliasRE_from (lhs @ [c]) r'))"

declare forAliasRE_from.simps [simp del]

definition forAliasRE :: "string \<Rightarrow> (string \<times> string) option" where
  "forAliasRE source = forAliasRE_from [] source"

text \<open>
  \<^verbatim>\<open>stripParensRE = /^\(|\)$/g\<close>, replaced by the empty string: an opening parenthesis
  at the start and a closing one at the end are removed.
\<close>

definition stripParens :: "string \<Rightarrow> string" where
  "stripParens s =
     (let s1 = (case s of [] \<Rightarrow> [] | c # t \<Rightarrow> if c = CHR ''('' then t else s)
      in if s1 \<noteq> [] \<and> last s1 = CHR '')'' then butlast s1 else s1)"

text \<open>
  \<^verbatim>\<open>forIteratorRE = /,([^,\}\]]*)(?:,([^,\}\]]*))?$/\<close>.

  \<open>matchIteratorAt\<close> matches what follows the first comma: both groups are greedy and
  end at the first comma, brace or bracket, so a shorter group is never followed by
  what the pattern needs. The result is the first group and the second one, if it took
  part in the match.
\<close>

definition isIteratorChar :: "char \<Rightarrow> bool" where
  "isIteratorChar c \<longleftrightarrow> c \<noteq> CHR '','' \<and> c \<noteq> CHR ''}'' \<and> c \<noteq> CHR '']''"

definition matchIteratorAt :: "string \<Rightarrow> (string \<times> string option) option" where
  "matchIteratorAt r =
     (case dropWhile isIteratorChar r of
        [] \<Rightarrow> Some (takeWhile isIteratorChar r, None)
      | c # r2 \<Rightarrow>
          if c = CHR '','' \<and> dropWhile isIteratorChar r2 = []
          then Some (takeWhile isIteratorChar r, Some (takeWhile isIteratorChar r2))
          else None)"

text \<open>
  The leftmost comma from which the pattern matches up to the end of the string. The
  result is the text before the match, which is what replacing the match by the empty
  string leaves, and the two groups.
\<close>

fun forIteratorRE_from :: "string \<Rightarrow> string \<Rightarrow> (string \<times> string \<times> string option) option" where
  "forIteratorRE_from pre [] = None"
| "forIteratorRE_from pre (c # r) =
     (case (if c = CHR '','' then matchIteratorAt r else None) of
        Some (g1, g2) \<Rightarrow> Some (pre, g1, g2)
      | None \<Rightarrow> forIteratorRE_from (pre @ [c]) r)"

definition forIteratorRE :: "string \<Rightarrow> (string \<times> string \<times> string option) option" where
  "forIteratorRE s = forIteratorRE_from [] s"

record AliasExpression =
  alias_offset :: int
  content :: string

record AliasExpressions =
  source :: AliasExpression
  "value" :: "AliasExpression option"
  key_alias :: "AliasExpression option"
  index :: "AliasExpression option"

definition parseAliasExpressions :: "string \<Rightarrow> AliasExpressions option" where
  "parseAliasExpressions src =
     (case forAliasRE src of
        None \<Rightarrow> None
      | Some (LHS, RHS) \<Rightarrow>
          let src_alias = \<lparr>alias_offset = indexOf src RHS (int (length LHS)), content = trim RHS\<rparr>;
              valueContent0 = trim (stripParens (trim LHS));
              trimmedOffset = indexOf LHS valueContent0 0;
              iteratorMatch = forIteratorRE valueContent0;
              valueContent = (case iteratorMatch of None \<Rightarrow> valueContent0
                              | Some (pre, _, _) \<Rightarrow> trim pre);
              keyContent = (case iteratorMatch of None \<Rightarrow> [] | Some (_, g1, _) \<Rightarrow> trim g1);
              k = (if iteratorMatch \<noteq> None \<and> keyContent \<noteq> []
                   then Some \<lparr>alias_offset =
                                 indexOf src keyContent (trimmedOffset + int (length valueContent)),
                               content = keyContent\<rparr>
                   else None);
              indexContent = (case iteratorMatch of
                                Some (_, _, Some g2) \<Rightarrow> if g2 \<noteq> [] then trim g2 else []
                              | _ \<Rightarrow> []);
              i = (if indexContent \<noteq> []
                   then Some \<lparr>alias_offset =
                                 indexOf src indexContent
                                   (case k of
                                      Some ka \<Rightarrow> alias_offset ka + int (length (content ka))
                                    | None \<Rightarrow> trimmedOffset + int (length valueContent)),
                               content = indexContent\<rparr>
                   else None);
              v = (if valueContent \<noteq> []
                   then Some \<lparr>alias_offset = trimmedOffset, content = valueContent\<rparr>
                   else None)
          in Some \<lparr>source = src_alias, value = v, key_alias = k, index = i\<rparr>)"

text \<open>The contents of the four aliases, in the order value, key, index, source.\<close>

definition aliasContents ::
  "AliasExpressions \<Rightarrow> string option \<times> string option \<times> string option \<times> string" where
  "aliasContents r =
     (map_option content (value r), map_option content (key_alias r),
      map_option content (index r), content (source r))"

record SourceLocation =
  loc_start :: Position
  loc_end :: Position
  loc_source :: string

text \<open>
  \<^verbatim>\<open>ExpressionNode\<close>, whose \<^verbatim>\<open>type\<close> is always \<^verbatim>\<open>NodeTypes.EXPRESSION\<close>; the fields of a
  \<^verbatim>\<open>DirectiveNode\<close> and of the element node that the transform reads; the node of type
  \<^verbatim>\<open>NodeTypes.FOR\<close> that it builds.
\<close>

record ExpressionNode =
  exp_loc :: SourceLocation
  exp_content :: string
  isStatic :: bool

record DirectiveNode =
  dir_name :: string
  exp :: "ExpressionNode option"
  dir_loc :: SourceLocation

record ElementNode =
  node_tag :: string
  node_loc :: SourceLocation

record ForNode =
  for_loc :: SourceLocation
  for_source :: "ExpressionNode option"
  valueAlias :: "ExpressionNode option"
  keyAlias :: "ExpressionNode option"
  objectIndexAlias :: "ExpressionNode option"
  for_children :: "ElementNode list"

text \<open>
  The exceptions of the model: an \<^verbatim>\<open>Error\<close> with its message, the \<^verbatim>\<open>TypeError\<close> of a
  property read on \<^verbatim>\<open>null\<close> or \<^verbatim>\<open>undefined\<close>, and a parser's \<^verbatim>\<open>SyntaxError\<close>.
  \<^verbatim>\<open>assert\<close> throws an \<^verbatim>\<open>Error\<close> with the default message.
\<close>

datatype exn = Error string | TypeError | SyntaxError string

definition assert :: "bool \<Rightarrow> exn + unit" where
  "assert condition = (if condition then Inr () else Inl (Error ''unexpected compiler condition''))"

text \<open>
  \<^verbatim>\<open>advancePositionWithMutation\<close> on a copy of the position; \<^verbatim>\<open>charCodeAt\<close> beyond the
  end of the source is never a newline.
\<close>

fun lastNewLinePos :: "string \<Rightarrow> nat \<Rightarrow> int \<Rightarrow> int" where
  "lastNewLinePos [] i acc = acc"
| "lastNewLinePos (c # cs) i acc =
     lastNewLinePos cs (Suc i) (if c = CHR 0x0A then int i else acc)"

definition advancePositionWithClone :: "Position \<Rightarrow> string \<Rightarrow> int \<Rightarrow> Position" where
  "advancePositionWithClone pos src numberOfCharacters =
     (let seen = take (nat numberOfCharacters) src;
          linesCount = int (length (filter (\<lambda>c. c = CHR 0x0A) seen));
          lastNL = lastNewLinePos seen 0 (- 1)
      in \<lparr>offset = offset pos + numberOfCharacters,
          line = line pos + linesCount,
          column = (if lastNL = - 1 then column pos + numberOfCharacters
                    else max 1 (numberOfCharacters - lastNL))\<rparr>)"

text \<open>\<^verbatim>\<open>s.substr(start, length)\<close> with both arguments given.\<close>

definition substr :: "string \<Rightarrow> int \<Rightarrow> int \<Rightarrow> string" where
  "substr s start len =
     (let n = int (length s);
          b = (if start < 0 then max (n + start) 0 else min start n)
      in take (nat (min (max len 0) (n - b))) (drop (nat b) s))"

text \<open>\<^verbatim>\<open>getInnerRange(loc, offset, length)\<close> with a length, as \<^verbatim>\<open>maybeCreateExpression\<close> calls it.\<close>

definition getInnerRange :: "bool \<Rightarrow> SourceLocation \<Rightarrow> int \<Rightarrow> int \<Rightarrow> exn + SourceLocation" where
  "getInnerRange DEV l off len =
     (case (if DEV then assert (off \<le> int (length (loc_source l))) else Inr ()) of
        Inl e \<Rightarrow> Inl e
      | Inr _ \<Rightarrow>
          (case (if DEV then assert (off + len \<le> int (length (loc_source l))) else Inr ()) of
             Inl e \<Rightarrow> Inl e
           | Inr _ \<Rightarrow>
               Inr \<lparr>loc_start = advancePositionWithClone (loc_start l) (loc_source l) off,
                    loc_end = advancePositionWithClone (loc_start l) (loc_source l) (off + len),
                    loc_source = substr (loc_source l) off len\<rparr>))"

definition maybeCreateExpression ::
  "bool \<Rightarrow> AliasExpression option \<Rightarrow> ExpressionNode \<Rightarrow> exn + ExpressionNode option" where
  "maybeCreateExpression DEV alias node =
     (case alias of
        None \<Rightarrow> Inr None
      | Some a \<Rightarrow>
          (case getInnerRange DEV (exp_loc node) (alias_offset a) (int (length (content a))) of
             Inl e \<Rightarrow> Inl e
           | Inr l \<Rightarrow> Inr (Some \<lparr>exp_loc = l, exp_content = content a, isStatic = False\<rparr>)))"

text \<open>
  What the transform does with its context: \<^verbatim>\<open>context.replaceNode\<close> and
  \<^verbatim>\<open>context.onError\<close> belong to \<^verbatim>\<open>../transform\<close>, so the model returns the call made
  and its argument. \<open>Inl\<close> is an exception thrown by the transform itself.
\<close>

datatype context_call =
    ReplaceNode ForNode
  | OnError CompilerError

text \<open>
  The function given to \<^verbatim>\<open>createDirectiveTransform('for', ...)\<close>, which the transform
  applies to each directive named \<^verbatim>\<open>for\<close> of an element.
\<close>

definition transformFor ::
  "bool \<Rightarrow> bool \<Rightarrow> ElementNode \<Rightarrow> DirectiveNode \<Rightarrow> exn + context_call" where
  "transformFor DEV BROWSER node dir =
     (case exp dir of
        Some e \<Rightarrow>
          (case parseAliasExpressions (exp_content e) of
             Some aliases \<Rightarrow>
               (case maybeCreateExpression DEV (Some (source aliases)) e of
                  Inl x \<Rightarrow> Inl x
                | Inr s \<Rightarrow>
               (case maybeCreateExpression DEV (value aliases) e of
                  Inl x \<Rightarrow> Inl x
                | Inr v \<Rightarrow>
               (case maybeCreateExpression DEV (key_alias aliases) e of
                  Inl x \<Rightarrow> Inl x
                | Inr k \<Rightarrow>
               (case maybeCreateExpression DEV (index aliases) e of
                  Inl x \<Rightarrow> Inl x
                | Inr i \<Rightarrow>
                    Inr (ReplaceNode
                          \<lparr>for_loc = node_loc node, for_source = s, valueAlias = v,
                           keyAlias = k, objectIndexAlias = i, for_children = [node]\<rparr>)))))
           | None \<Rightarrow>
               Inr (OnError (createCompilerError DEV BROWSER X_FOR_MALFORMED_EXPRESSION
                              (loc_start (dir_loc dir)))))
      | None \<Rightarrow>
          Inr (OnError (createCompilerError DEV BROWSER X_FOR_NO_EXPRESSION
                         (loc_start (dir_loc dir)))))"

text \<open>
  A \<^verbatim>\<open>v-for\<close> directive on the first line of a template, for concrete evaluation: the
  attribute \<^verbatim>\<open>v-for="..."\<close> starts at column 6 and its expression at column 13.
\<close>

definition exampleDirective :: "string option \<Rightarrow> DirectiveNode" where
  "exampleDirective e =
     \<lparr>dir_name = ''for'',
      exp = map_option (\<lambda>s.
              \<lparr>exp_loc = \<lparr>loc_start = \<lparr>offset = 12, line = 1, column = 13\<rparr>,
                          loc_end = \<lparr>offset = 12 + int (length s), line = 1,
                                     column = 13 + int (length s)\<rparr>,
                          loc_source = s\<rparr>,
               exp_content = s, isStatic = False\<rparr>) e,
      dir_loc = \<lparr>loc_start = \<lparr>offset = 5, line = 1, column = 6\<rparr>,
                 loc_end = \<lparr>offset = 13 + int (length (case e of None \<Rightarrow> [] | Some s \<Rightarrow> s)),
                            line = 1,
                            column = 14 + int (length (case e of None \<Rightarrow> [] | Some s \<Rightarrow> s))\<rparr>,
                 loc_source = ''v-for''\<rparr>\<rparr>"

definition exampleElement :: ElementNode where
  "exampleElement =
     \<lparr>node_tag = ''div'',
      node_loc = \<lparr>loc_start = \<lparr>offset = 0, line = 1, column = 1\<rparr>,
                  loc_end = \<lparr>offset = 40, line = 1, column = 41\<rparr>,
                  loc_source = ''<div/>''\<rparr>\<rparr>"

section \<open>Server renderer: attribute helpers\<close>

text \<open>
  Source: the server renderer's attribute helpers (\<^verbatim>\<open>renderAttr\<close>, \<^verbatim>\<open>renderClass\<close>) and
  \<^verbatim>\<open>normalizeClass\<close> of \<^verbatim>\<open>packages/runtime-core/src/vnode.ts\<close>.
\<close>


definition escapeChar :: "char \<Rightarrow> string" where
  "escapeChar c =
     (if c = CHR ''&'' then ''&amp;''
      else if c = CHR ''<'' then ''&lt;''
      else if c = CHR ''>'' then ''&gt;''
      else if c = CHR 0x22 then ''&quot;''
      else if c = CHR 0x27 then ''&#39;''
      else [c])"

definition escapeHtml :: "string \<Rightarrow> string" where
  "escapeHtml s = concat (map escapeChar s)"

text \<open>
  The value \<^verbatim>\<open>raw: unknown\<close> that \<^verbatim>\<open>normalizeClass\<close> takes apart: a string, an array,
  an object (its keys in order, each with the truthiness of its value), or anything
  else.
\<close>

datatype classValue =
    ClassString string
  | ClassArray "classValue list"
  | ClassObject "(string \<times> bool) list"
  | ClassOther

fun normalizeClassRes :: "classValue \<Rightarrow> string"
  and normalizeClassArray :: "classValue list \<Rightarrow> string" where
  "normalizeClassRes (ClassString s) = s"
| "normalizeClassRes (ClassArray vs) = normalizeClassArray vs"
| "normalizeClassRes (ClassObject es) =
     concat (map (\<lambda>(name, truthy). if truthy then name @ '' '' else []) es)"
| "normalizeClassRes ClassOther = []"
| "normalizeClassArray [] = []"
| "normalizeClassArray (v # vs) = trim (normalizeClassRes v) @ '' '' @ normalizeClassArray vs"






section \<open>Single-file components: script compilation\<close>

text \<open>
  Source: \<^verbatim>\<open>packages/compiler-sfc/src/compileScript.ts\<close>.

  The syntax tree is the one of the external parser (\<^verbatim>\<open>@babel/parser\<close>). The model
  keeps the node types and the fields that the functions below read; a node of any
  other type is \<open>OtherExpression\<close>, \<open>OtherPattern\<close>, \<open>OtherBodyItem\<close> or
  \<open>OtherStatement\<close>, with the name of its type.
\<close>

datatype Expression =
    Identifier string
  | CallExpression Expression "Expression list"
  | MemberExpression Expression Expression
  | ObjectExpression "ObjectMember list"
  | ArrayExpression "Expression option list"
  | StringLiteral string
  | NumericLiteral int
  | OtherExpression string
and ObjectMember =
    ObjectProperty bool Expression Expression
  | ObjectMethod bool Expression "BodyItem list"
  | SpreadElement Expression
and BodyItem =
    ReturnStatement "Expression option"
  | OtherBodyItem string

text \<open>
  The fields of \<open>ObjectProperty\<close> and \<open>ObjectMethod\<close> are \<^verbatim>\<open>computed\<close>, \<^verbatim>\<open>key\<close>, and
  \<^verbatim>\<open>value\<close> or the statements of \<^verbatim>\<open>body\<close>.

  Binding patterns. In a property of an object pattern the last field says whether
  \<^verbatim>\<open>key\<close> and \<^verbatim>\<open>value\<close> are the same node object, which is what \<^verbatim>\<open>p.key === p.value\<close>
  tests.
\<close>

datatype Pattern =
    IdentifierPattern string
  | RestElement Pattern
  | ObjectPattern "PatternProperty list"
  | ArrayPattern "Pattern option list"
  | AssignmentPattern Pattern Expression
  | OtherPattern string
and PatternProperty =
    PatternProperty Expression Pattern bool
  | PatternRest Pattern

datatype VariableKind = Var | Let | Const

record VariableDeclarator =
  decl_id :: Pattern
  init :: "Expression option"

text \<open>
  A declaration: a variable declaration with its kind, declarators and \<^verbatim>\<open>declare\<close>
  flag, or a function or class declaration with its \<^verbatim>\<open>id\<close> and \<^verbatim>\<open>declare\<close> flag.
\<close>

datatype Declaration =
    VariableDeclaration VariableKind "VariableDeclarator list" bool
  | FunctionDeclaration "string option" bool
  | ClassDeclaration "string option" bool
  | OtherDeclaration string

datatype Statement =
    ExportDefaultDeclaration Expression
  | DeclarationStatement Declaration
  | OtherStatement string

text \<open>
  The enum \<^verbatim>\<open>BindingTypes\<close> of the template compiler, and \<^verbatim>\<open>BindingMetadata\<close>, a
  record from names to binding types. \<open>CONSTANT\<close> is the member \<^verbatim>\<open>BindingTypes.CONST\<close>,
  whose own name is a reserved word of the term language.
\<close>

datatype BindingTypes = DATA | PROPS | SETUP | CONSTANT | OPTIONS

type_synonym BindingMetadata = "string \<rightharpoonup> BindingTypes"


text \<open>
  \<^verbatim>\<open>(node as Identifier).name\<close>: the name of an identifier; on any other pattern the
  property is missing and the record key becomes the word \<^verbatim>\<open>undefined\<close>.
\<close>

fun patternName :: "Pattern \<Rightarrow> string" where
  "patternName (IdentifierPattern n) = n"
| "patternName _ = ''undefined''"

fun isIdentifierKey :: "Expression \<Rightarrow> bool" where
  "isIdentifierKey (Identifier _) = True"
| "isIdentifierKey _ = False"

fun identifierName :: "Expression \<Rightarrow> string" where
  "identifierName (Identifier n) = n"
| "identifierName _ = ''undefined''"

definition constOrSetup :: "bool \<Rightarrow> BindingTypes" where
  "constOrSetup b = (if b then CONSTANT else SETUP)"

fun walkPattern :: "Pattern \<Rightarrow> BindingMetadata \<Rightarrow> bool \<Rightarrow> bool \<Rightarrow> BindingMetadata"
  and walkObjectPattern ::
    "PatternProperty list \<Rightarrow> BindingMetadata \<Rightarrow> bool \<Rightarrow> bool \<Rightarrow> BindingMetadata"
  and walkArrayPattern ::
    "Pattern option list \<Rightarrow> BindingMetadata \<Rightarrow> bool \<Rightarrow> bool \<Rightarrow> BindingMetadata" where
  "walkPattern (IdentifierPattern n) bindings isConst isUseOptionsCall =
     bindings(n \<mapsto> constOrSetup isUseOptionsCall)"
| "walkPattern (RestElement argument) bindings isConst isUseOptionsCall =
     bindings(patternName argument \<mapsto> constOrSetup isConst)"
| "walkPattern (ObjectPattern ps) bindings isConst isUseOptionsCall =
     walkObjectPattern ps bindings isConst False"
| "walkPattern (ArrayPattern es) bindings isConst isUseOptionsCall =
     walkArrayPattern es bindings isConst False"
| "walkPattern (AssignmentPattern left right) bindings isConst isUseOptionsCall =
     (case left of
        IdentifierPattern n \<Rightarrow> bindings(n \<mapsto> constOrSetup isUseOptionsCall)
      | _ \<Rightarrow> walkPattern left bindings isConst False)"
| "walkPattern (OtherPattern t) bindings isConst isUseOptionsCall = bindings"
| "walkObjectPattern [] bindings isConst isUseOptionsCall = bindings"
| "walkObjectPattern (PatternProperty k v same # ps) bindings isConst isUseOptionsCall =
     walkObjectPattern ps
       (if isIdentifierKey k
        then (if same then bindings(identifierName k \<mapsto> constOrSetup isUseOptionsCall)
              else walkPattern v bindings isConst isUseOptionsCall)
        else bindings)
       isConst isUseOptionsCall"
| "walkObjectPattern (PatternRest argument # ps) bindings isConst isUseOptionsCall =
     walkObjectPattern ps (bindings(patternName argument \<mapsto> constOrSetup isConst))
       isConst isUseOptionsCall"
| "walkArrayPattern [] bindings isConst isUseOptionsCall = bindings"
| "walkArrayPattern (None # es) bindings isConst isUseOptionsCall =
     walkArrayPattern es bindings isConst isUseOptionsCall"
| "walkArrayPattern (Some e # es) bindings isConst isUseOptionsCall =
     walkArrayPattern es (walkPattern e bindings isConst isUseOptionsCall)
       isConst isUseOptionsCall"










text \<open>
  \<^verbatim>\<open>getObjectExpressionKeys\<close>, \<^verbatim>\<open>getArrayExpressionKeys\<close> and
  \<^verbatim>\<open>getObjectOrArrayExpressionKeys\<close>, the last one applied to the value of the property.
\<close>

fun getObjectExpressionKeys :: "ObjectMember list \<Rightarrow> string list" where
  "getObjectExpressionKeys [] = []"
| "getObjectExpressionKeys (ObjectProperty computed (Identifier n) _ # ps) =
     (if \<not> computed then n # getObjectExpressionKeys ps else getObjectExpressionKeys ps)"
| "getObjectExpressionKeys (ObjectProperty computed (StringLiteral v) _ # ps) =
     (if \<not> computed then v # getObjectExpressionKeys ps else getObjectExpressionKeys ps)"
| "getObjectExpressionKeys (ObjectMethod computed (Identifier n) _ # ps) =
     (if \<not> computed then n # getObjectExpressionKeys ps else getObjectExpressionKeys ps)"
| "getObjectExpressionKeys (ObjectMethod computed (StringLiteral v) _ # ps) =
     (if \<not> computed then v # getObjectExpressionKeys ps else getObjectExpressionKeys ps)"
| "getObjectExpressionKeys (_ # ps) = getObjectExpressionKeys ps"

fun getArrayExpressionKeys :: "Expression option list \<Rightarrow> string list" where
  "getArrayExpressionKeys [] = []"
| "getArrayExpressionKeys (Some (StringLiteral v) # es) = v # getArrayExpressionKeys es"
| "getArrayExpressionKeys (_ # es) = getArrayExpressionKeys es"

fun getObjectOrArrayExpressionKeys :: "Expression \<Rightarrow> string list" where
  "getObjectOrArrayExpressionKeys (ArrayExpression es) = getArrayExpressionKeys es"
| "getObjectOrArrayExpressionKeys (ObjectExpression ps) = getObjectExpressionKeys ps"
| "getObjectOrArrayExpressionKeys _ = []"

text \<open>The loop \<^verbatim>\<open>for (const key of keys) bindings[key] = t\<close>.\<close>

definition bindAll :: "string list \<Rightarrow> BindingTypes \<Rightarrow> BindingMetadata \<Rightarrow> BindingMetadata" where
  "bindAll keys t bindings = foldl (\<lambda>m k. m(k \<mapsto> t)) bindings keys"

text \<open>The loop over the statements of the body of a \<^verbatim>\<open>setup\<close> or \<^verbatim>\<open>data\<close> method.\<close>

fun bindReturned :: "BodyItem list \<Rightarrow> BindingTypes \<Rightarrow> BindingMetadata \<Rightarrow> BindingMetadata" where
  "bindReturned [] t bindings = bindings"
| "bindReturned (ReturnStatement (Some (ObjectExpression ps)) # items) t bindings =
     bindReturned items t (bindAll (getObjectExpressionKeys ps) t bindings)"
| "bindReturned (_ # items) t bindings = bindReturned items t bindings"

text \<open>One round of the loop of \<^verbatim>\<open>analyzeBindingsFromOptions\<close> over the properties.\<close>

fun analyzeProperty :: "ObjectMember \<Rightarrow> BindingMetadata \<Rightarrow> BindingMetadata" where
  "analyzeProperty (ObjectProperty computed (Identifier n) v) bindings =
     (if \<not> computed
      then (if n = ''props'' then bindAll (getObjectOrArrayExpressionKeys v) PROPS bindings
            else if n = ''inject'' then bindAll (getObjectOrArrayExpressionKeys v) OPTIONS bindings
            else (case v of
                    ObjectExpression ps \<Rightarrow>
                      if n = ''computed'' \<or> n = ''methods''
                      then bindAll (getObjectExpressionKeys ps) OPTIONS bindings
                      else bindings
                  | _ \<Rightarrow> bindings))
      else bindings)"
| "analyzeProperty (ObjectMethod computed (Identifier n) body) bindings =
     (if n = ''setup'' \<or> n = ''data''
      then bindReturned body (if n = ''setup'' then SETUP else DATA) bindings
      else bindings)"
| "analyzeProperty _ bindings = bindings"

definition analyzeBindingsFromOptions :: "ObjectMember list \<Rightarrow> BindingMetadata" where
  "analyzeBindingsFromOptions properties =
     foldl (\<lambda>bindings property. analyzeProperty property bindings) Map.empty properties"

fun analyzeScriptBindings :: "Statement list \<Rightarrow> BindingMetadata" where
  "analyzeScriptBindings [] = Map.empty"
| "analyzeScriptBindings (ExportDefaultDeclaration (ObjectExpression ps) # ast) =
     analyzeBindingsFromOptions ps"
| "analyzeScriptBindings (_ # ast) = analyzeScriptBindings ast"

text \<open>
  The blocks of a descriptor. An attribute value is a string or \<^verbatim>\<open>true\<close>. The fields of
  a script block that \<^verbatim>\<open>compileScript\<close> only copies are kept together in \<open>attrs\<close> and
  \<open>block_loc\<close>.
\<close>

datatype attr_value = AttrString string | AttrTrue

record SFCScriptBlock =
  script_content :: string
  lang :: "string option"
  attrs :: "(string \<times> attr_value) list"
  block_loc :: nat
  bindings :: "BindingMetadata option"
  scriptAst :: "Statement list option"

record SFCStyleBlock =
  style_content :: string
  style_attrs :: "(string \<times> attr_value) list"

record SFCDescriptor =
  filename :: string
  sfc_source :: string
  script :: "SFCScriptBlock option"
  scriptSetup :: "SFCScriptBlock option"
  styles :: "SFCStyleBlock list"

record SFCScriptCompileOptions =
  babelParserPlugins :: "string list option"

text \<open>
  What \<^verbatim>\<open>compileScript\<close> takes from outside this file, as parameters of the model:
  the list \<^verbatim>\<open>babelParserDefaultPlugins\<close> of the shared utilities; the external parser,
  which returns the statements of the program or throws; \<^verbatim>\<open>injectCssVarsCalls\<close> of
  \<^verbatim>\<open>./genCssVars\<close>, which returns the new content or throws; and the rest of
  \<^verbatim>\<open>compileScript\<close> itself, the part that compiles a \<^verbatim>\<open><script setup>\<close> block.
\<close>

record compile_env =
  babelParserDefaultPlugins :: "string list"
  babel_parse :: "string \<Rightarrow> string list \<Rightarrow> exn + Statement list"
  injectCssVarsCalls :: "SFCDescriptor \<Rightarrow> string list \<Rightarrow> exn + string"
  compileScriptSetup :: "SFCDescriptor \<Rightarrow> string list \<Rightarrow> exn + SFCScriptBlock"

definition hasCssVars :: "SFCDescriptor \<Rightarrow> bool" where
  "hasCssVars sfc =
     list_ex (\<lambda>s. case map_of (style_attrs s) ''vars'' of
                    Some (AttrString _) \<Rightarrow> True
                  | _ \<Rightarrow> False) (styles sfc)"

text \<open>A language is truthy when the attribute is there and not the empty string.\<close>

definition truthyLang :: "string option \<Rightarrow> bool" where
  "truthyLang l = (l \<noteq> None \<and> l \<noteq> Some [])"

definition compilePlugins ::
  "compile_env \<Rightarrow> SFCDescriptor \<Rightarrow> SFCScriptCompileOptions \<Rightarrow> string list" where
  "compilePlugins env sfc options =
     (let scriptLang = (case script sfc of None \<Rightarrow> None | Some s \<Rightarrow> lang s);
          scriptSetupLang = (case scriptSetup sfc of None \<Rightarrow> None | Some s \<Rightarrow> lang s);
          isTS = (scriptLang = Some ''ts'' \<or> scriptSetupLang = Some ''ts'')
      in babelParserDefaultPlugins env @ [''jsx'']
         @ (case babelParserPlugins options of None \<Rightarrow> [] | Some ps \<Rightarrow> ps)
         @ (if isTS then [''typescript'', ''decorators-legacy''] else []))"

text \<open>
  \<^verbatim>\<open>compileScript\<close>. Without a \<^verbatim>\<open><script setup>\<close> block: no script block at all is an
  error; a block in another language than JavaScript or TypeScript is returned as it
  is; otherwise the body of the \<^verbatim>\<open>try\<close> is run, and whatever it throws makes the
  function return the block as it is.
\<close>

definition compileScript ::
  "compile_env \<Rightarrow> SFCDescriptor \<Rightarrow> SFCScriptCompileOptions \<Rightarrow> exn + SFCScriptBlock" where
  "compileScript env sfc options =
     (let plugins = compilePlugins env sfc options
      in case scriptSetup sfc of
           Some _ \<Rightarrow> compileScriptSetup env sfc plugins
         | None \<Rightarrow>
             (case script sfc of
                None \<Rightarrow> Inl (Error ''[@vue/compiler-sfc] SFC contains no <script> tags.'')
              | Some scr \<Rightarrow>
                  if truthyLang (lang scr) \<and> lang scr \<noteq> Some ''ts'' then Inr scr
                  else
                    (case babel_parse env (script_content scr) plugins of
                       Inl _ \<Rightarrow> Inr scr
                     | Inr ast \<Rightarrow>
                         (case (if hasCssVars sfc then injectCssVarsCalls env sfc plugins
                                else Inr (script_content scr)) of
                            Inl _ \<Rightarrow> Inr scr
                          | Inr c \<Rightarrow>
                              Inr (scr\<lparr>script_content := c,
                                       bindings := Some (analyzeScriptBindings ast),
                                       scriptAst := Some ast\<rparr>)))))"

text \<open>
  An environment and descriptors for concrete evaluation. The parser of the example
  accepts the program \<^verbatim>\<open>export default {}\<close> and rejects every other text, and the
  injection of the calls for custom-property bindings throws, as on bindings that are
  not an expression.
\<close>

definition exampleEnv :: compile_env where
  "exampleEnv =
     \<lparr>babelParserDefaultPlugins = [''bigInt'', ''optionalChaining''],
      babel_parse = (\<lambda>src plugins.
         if src = ''export default {}'' then Inr [ExportDefaultDeclaration (ObjectExpression [])]
         else Inl (SyntaxError ''Unexpected token'')),
      injectCssVarsCalls = (\<lambda>sfc plugins. Inl (SyntaxError ''Unexpected token'')),
      compileScriptSetup = (\<lambda>sfc plugins. Inl (Error ''not part of the example''))\<rparr>"

definition exampleScript :: "string option \<Rightarrow> string \<Rightarrow> SFCScriptBlock" where
  "exampleScript l c =
     \<lparr>script_content = c, lang = l,
      attrs = (case l of None \<Rightarrow> [] | Some x \<Rightarrow> [(''lang'', AttrString x)]),
      block_loc = 0, bindings = None, scriptAst = None\<rparr>"

definition exampleSfc :: "string option \<Rightarrow> string \<Rightarrow> SFCDescriptor" where
  "exampleSfc l c =
     \<lparr>filename = ''component.vue'', sfc_source = ''<script>'' @ c @ ''</script>'',
      script = Some (exampleScript l c), scriptSetup = None, styles = []\<rparr>"

definition exampleSfcWithVars :: "string \<Rightarrow> SFCDescriptor" where
  "exampleSfcWithVars c =
     (exampleSfc None c)
       \<lparr>styles := [\<lparr>style_content = ''.a { color: var(--color) }'',
                    style_attrs = [(''vars'', AttrString ''{'')]\<rparr>]\<rparr>"

definition exampleOptions :: SFCScriptCompileOptions where
  "exampleOptions = \<lparr>babelParserPlugins = None\<rparr>"

section \<open>Runtime core: component props\<close>

text \<open>
  Source: \<^verbatim>\<open>packages/runtime-core/src/componentProps.ts\<close>.

  A plain object (\<^verbatim>\<open>Data\<close>) is the list of its own enumerable properties in the order
  of \<^verbatim>\<open>for ... in\<close>, which is the order of insertion for keys that are not array
  indices. An assignment replaces the value of a key that is there and appends a new
  key otherwise.
\<close>

type_synonym Data = "(string \<times> jsvalue) list"

definition hasOwn :: "(string \<times> 'a) list \<Rightarrow> string \<Rightarrow> bool" where
  "hasOwn obj k = (map_of obj k \<noteq> None)"

definition getProperty :: "Data \<Rightarrow> string \<Rightarrow> jsvalue" where
  "getProperty obj k = (case map_of obj k of None \<Rightarrow> Undefined | Some v \<Rightarrow> v)"

fun setProperty :: "(string \<times> 'a) list \<Rightarrow> string \<Rightarrow> 'a \<Rightarrow> (string \<times> 'a) list" where
  "setProperty [] k v = [(k, v)]"
| "setProperty ((k', v') # obj) k v =
     (if k' = k then (k, v) # obj else (k', v') # setProperty obj k v)"

definition deleteProperty :: "(string \<times> 'a) list \<Rightarrow> string \<Rightarrow> (string \<times> 'a) list" where
  "deleteProperty obj k = filter (\<lambda>p. fst p \<noteq> k) obj"

text \<open>
  Letters and word characters. \<^verbatim>\<open>toUpperCase\<close> and \<^verbatim>\<open>toLowerCase\<close> on the code units
  below 256: the letters A to Z, and the accented capitals from 192 to 222 except the
  multiplication sign, have their small letter 32 places on; among the small letters,
  the micro sign, the sharp s and the y with diaeresis have no capital below 256 and
  keep the model's character.
\<close>

definition isUpperAZ :: "char \<Rightarrow> bool" where
  "isUpperAZ c \<longleftrightarrow> (65::nat) \<le> of_char c \<and> of_char c \<le> (90::nat)"

definition isLowerAZ :: "char \<Rightarrow> bool" where
  "isLowerAZ c \<longleftrightarrow> (97::nat) \<le> of_char c \<and> of_char c \<le> (122::nat)"

definition isDigit :: "char \<Rightarrow> bool" where
  "isDigit c \<longleftrightarrow> (48::nat) \<le> of_char c \<and> of_char c \<le> (57::nat)"

definition isWordChar :: "char \<Rightarrow> bool" where
  "isWordChar c \<longleftrightarrow> isUpperAZ c \<or> isLowerAZ c \<or> isDigit c \<or> c = CHR ''_''"

definition toLowerCaseChar :: "char \<Rightarrow> char" where
  "toLowerCaseChar c =
     (let n = (of_char c :: nat)
      in if isUpperAZ c \<or> (192 \<le> n \<and> n \<le> 222 \<and> n \<noteq> 215) then char_of (n + 32) else c)"

definition toUpperCaseChar :: "char \<Rightarrow> char" where
  "toUpperCaseChar c =
     (let n = (of_char c :: nat)
      in if isLowerAZ c \<or> (224 \<le> n \<and> n \<le> 254 \<and> n \<noteq> 247) then char_of (n - 32) else c)"

text \<open>
  Modelled from the spec: the helpers \<^verbatim>\<open>isReservedProp\<close>, \<^verbatim>\<open>isOn\<close>, \<^verbatim>\<open>camelize\<close> and
  \<^verbatim>\<open>hyphenate\<close> of the shared utilities, which are not among the sources. The spec
  names the reserved properties as \<^verbatim>\<open>key\<close> and \<^verbatim>\<open>ref\<close>, the listener convention as
  \<^verbatim>\<open>on\<close> followed by the event name, and the two converters as hyphen-case to
  camel-case and back: \<open>camelize\<close> replaces every hyphen that is followed by a word
  character by the capital of that character, and \<open>hyphenate\<close> puts a hyphen before
  every capital A to Z that follows a word character and makes all letters small.
\<close>

definition isReservedProp :: "string \<Rightarrow> bool" where
  "isReservedProp k \<longleftrightarrow> k = ''key'' \<or> k = ''ref''"

definition isOn :: "string \<Rightarrow> bool" where
  "isOn k \<longleftrightarrow> take 2 k = ''on''"

fun camelize :: "string \<Rightarrow> string" where
  "camelize [] = []"
| "camelize [c] = [c]"
| "camelize (c # d # s) =
     (if c = CHR ''-'' \<and> isWordChar d then toUpperCaseChar d # camelize s
      else c # camelize (d # s))"

fun hyphenateFrom :: "bool \<Rightarrow> string \<Rightarrow> string" where
  "hyphenateFrom afterWord [] = []"
| "hyphenateFrom afterWord (c # s) =
     (if afterWord \<and> isUpperAZ c then CHR ''-'' # toLowerCaseChar c # hyphenateFrom True s
      else toLowerCaseChar c # hyphenateFrom (isWordChar c) s)"

definition hyphenate :: "string \<Rightarrow> string" where
  "hyphenate s = hyphenateFrom False s"

text \<open>
  A type constructor is known to this file by the name that \<^verbatim>\<open>getType\<close> reads off its
  source text: \<open>NamedCtor n\<close> is a function whose text starts with \<^verbatim>\<open>function n\<close>, and
  \<open>OtherCtor\<close> is anything else (a class, an arrow function, \<^verbatim>\<open>null\<close>), for which
  \<^verbatim>\<open>getType\<close> returns the empty string.
\<close>

datatype PropConstructor = NamedCtor string | OtherCtor nat

fun getType :: "PropConstructor \<Rightarrow> string" where
  "getType (NamedCtor n) = n"
| "getType (OtherCtor _) = []"

definition isSameType :: "PropConstructor \<Rightarrow> PropConstructor \<Rightarrow> bool" where
  "isSameType a b = (getType a = getType b)"

text \<open>
  The value of the option \<^verbatim>\<open>type\<close>: an array of constructors, one constructor, or
  something that is neither (\<^verbatim>\<open>undefined\<close>, \<^verbatim>\<open>null\<close>, \<^verbatim>\<open>true\<close>).
\<close>

datatype PropType = TypeArray "PropConstructor list" | TypeFunction PropConstructor | NoType

fun findTypeIndex :: "PropConstructor \<Rightarrow> PropConstructor list \<Rightarrow> int \<Rightarrow> int" where
  "findTypeIndex t [] i = - 1"
| "findTypeIndex t (e # es) i = (if isSameType e t then i else findTypeIndex t es (i + 1))"

fun getTypeIndex :: "PropConstructor \<Rightarrow> PropType \<Rightarrow> int" where
  "getTypeIndex t (TypeArray expectedTypes) = findTypeIndex t expectedTypes 0"
| "getTypeIndex t (TypeFunction expectedType) = (if isSameType expectedType t then 0 else - 1)"
| "getTypeIndex t NoType = - 1"

text \<open>
  The option \<^verbatim>\<open>default\<close>, when the options object has it: a value that is not a
  function, or a factory function, given by the value that a call of it returns.
\<close>

datatype PropDefault = DefaultValue jsvalue | DefaultFactory jsvalue

text \<open>
  \<^verbatim>\<open>PropOptions\<close> with the two flags that normalisation adds. The option \<^verbatim>\<open>validator\<close>
  is read by the validation of development builds only.
\<close>

record PropOptions =
  prop_type :: PropType
  required :: bool
  default_option :: "PropDefault option"
  shouldCast :: bool
  shouldCastTrue :: bool

text \<open>
  What a component declares for one prop in the object syntax: \<^verbatim>\<open>null\<close>, a constructor
  or an array of constructors, or an options object.
\<close>

datatype Prop = NullProp | TypeProp PropType | OptionsProp PropOptions

datatype ComponentPropsOptions =
    PropsArray "string list"
  | PropsObject "(string \<times> Prop) list"

type_synonym NormalizedProp = "PropOptions option"

type_synonym NormalizedPropsOptions = "(string \<times> NormalizedProp) list \<times> string list"

definition EMPTY_OBJ_PROP :: PropOptions where
  "EMPTY_OBJ_PROP =
     \<lparr>prop_type = NoType, required = False, default_option = None,
      shouldCast = False, shouldCastTrue = False\<rparr>"

definition validatePropName :: "string \<Rightarrow> bool" where
  "validatePropName k = (case k of [] \<Rightarrow> True | c # _ \<Rightarrow> c \<noteq> CHR ''$'')"

fun normalizeArrayProps ::
  "string list \<Rightarrow> (string \<times> NormalizedProp) list \<Rightarrow> (string \<times> NormalizedProp) list" where
  "normalizeArrayProps [] normalized = normalized"
| "normalizeArrayProps (r # raw) normalized =
     normalizeArrayProps raw
       (if validatePropName (camelize r)
        then setProperty normalized (camelize r) (Some EMPTY_OBJ_PROP)
        else normalized)"

text \<open>One round of the loop over the keys of the object syntax.\<close>

definition normalizeObjectProp ::
  "string \<Rightarrow> Prop \<Rightarrow> NormalizedPropsOptions \<Rightarrow> NormalizedPropsOptions" where
  "normalizeObjectProp k opt acc =
     (let normalizedKey = camelize k; normalized = fst acc; needCastKeys = snd acc
      in if validatePropName normalizedKey
         then (case (case opt of
                       NullProp \<Rightarrow> None
                     | TypeProp t \<Rightarrow> Some (EMPTY_OBJ_PROP\<lparr>prop_type := t\<rparr>)
                     | OptionsProp po \<Rightarrow> Some po) of
                 None \<Rightarrow> (setProperty normalized normalizedKey None, needCastKeys)
               | Some p \<Rightarrow>
                   (let booleanIndex = getTypeIndex (NamedCtor ''Boolean'') (prop_type p);
                        stringIndex = getTypeIndex (NamedCtor ''String'') (prop_type p);
                        p' = p\<lparr>shouldCast := (booleanIndex > - 1),
                               shouldCastTrue := (stringIndex < 0 \<or> booleanIndex < stringIndex)\<rparr>
                    in (setProperty normalized normalizedKey (Some p'),
                        if booleanIndex > - 1 \<or> default_option p \<noteq> None
                        then needCastKeys @ [normalizedKey] else needCastKeys)))
         else acc)"

fun normalizeObjectProps ::
  "(string \<times> Prop) list \<Rightarrow> NormalizedPropsOptions \<Rightarrow> NormalizedPropsOptions" where
  "normalizeObjectProps [] acc = acc"
| "normalizeObjectProps ((k, opt) # raw) acc =
     normalizeObjectProps raw (normalizeObjectProp k opt acc)"

text \<open>
  \<^verbatim>\<open>normalizePropsOptions\<close> on options that are there. The function first returns
  \<^verbatim>\<open>raw._n\<close> if that is truthy. It stores its own result under that name, not
  enumerable, so on a later call with the same options the stored result is the
  value computed here. An options object that itself declares a prop named \<^verbatim>\<open>_n\<close> with
  a declaration other than \<^verbatim>\<open>null\<close> makes the function return that declaration; the
  model gives \<open>None\<close> for it.
\<close>

definition normalizePropsOptions :: "ComponentPropsOptions \<Rightarrow> NormalizedPropsOptions option" where
  "normalizePropsOptions raw =
     (case raw of
        PropsArray names \<Rightarrow> Some (normalizeArrayProps names [], [])
      | PropsObject entries \<Rightarrow>
          (case map_of entries ''_n'' of
             None \<Rightarrow> Some (normalizeObjectProps entries ([], []))
           | Some NullProp \<Rightarrow> Some (normalizeObjectProps entries ([], []))
           | Some _ \<Rightarrow> None))"

text \<open>
  The option \<^verbatim>\<open>emits\<close>: an array of event names, or an object, of which only the keys
  are read.
\<close>

datatype EmitsOptions = EmitsArray "string list" | EmitsObject "string list"

text \<open>
  \<^verbatim>\<open>normalizeEmitsOptions\<close> returns the keys of the normalised record. For an array it
  ends with \<^verbatim>\<open>Object.defineProperty(options, '_n', normalized)\<close>, which reads the
  record as a property descriptor: an event named \<^verbatim>\<open>get\<close> or \<^verbatim>\<open>set\<close> gives the descriptor
  an accessor that is \<^verbatim>\<open>null\<close>, and the call throws a \<^verbatim>\<open>TypeError\<close>. The property that it
  defines otherwise is never truthy, so the shortcut on \<^verbatim>\<open>options._n\<close> is never taken.
\<close>

definition normalizeEmitsOptions :: "EmitsOptions option \<Rightarrow> exn + string list option" where
  "normalizeEmitsOptions options =
     (case options of
        None \<Rightarrow> Inr None
      | Some (EmitsArray ks) \<Rightarrow>
          if ''get'' \<in> set ks \<or> ''set'' \<in> set ks then Inl TypeError else Inr (Some ks)
      | Some (EmitsObject ks) \<Rightarrow> Inr (Some ks))"

text \<open>
  \<^verbatim>\<open>isListener\<close>; on the key \<^verbatim>\<open>on\<close> itself the event name is empty and reading its first
  character's \<^verbatim>\<open>toLowerCase\<close> throws, unless the empty name is declared.
\<close>

definition isListener :: "string list \<Rightarrow> string \<Rightarrow> exn + bool" where
  "isListener emits k =
     (if \<not> isOn k then Inr False
      else let eventName = drop 2 k
           in if eventName \<in> set emits then Inr True
              else (case eventName of
                      [] \<Rightarrow> Inl TypeError
                    | c # r \<Rightarrow> Inr ((toLowerCaseChar c # r) \<in> set emits)))"

text \<open>
  The component instance, as far as \<^verbatim>\<open>resolveProps\<close> reads and writes it:
  \<^verbatim>\<open>instance.type.props\<close>, \<^verbatim>\<open>instance.type.emits\<close>, \<^verbatim>\<open>instance.propsProxy\<close> (the object
  behind the proxy), the two flags of \<^verbatim>\<open>instance.vnode\<close>, and \<^verbatim>\<open>instance.props\<close> and
  \<^verbatim>\<open>instance.attrs\<close>. The field \<open>LOCKED\<close> is the state that \<^verbatim>\<open>lock\<close> and \<^verbatim>\<open>unlock\<close> of the
  reactivity package set.
\<close>

record ComponentInternalInstance =
  type_props :: "ComponentPropsOptions option"
  type_emits :: "EmitsOptions option"
  propsProxy :: "Data option"
  vnode_patchFlag :: int
  vnode_shapeFlag :: int
  instance_props :: Data
  instance_attrs :: Data
  LOCKED :: bool

text \<open>
  The local state of \<^verbatim>\<open>resolveProps\<close>: the object \<^verbatim>\<open>props\<close>, the variable \<^verbatim>\<open>attrs\<close>, which
  is \<^verbatim>\<open>undefined\<close> until the first attribute, and the object behind \<^verbatim>\<open>propsProxy\<close>.
\<close>

record resolve_locals =
  local_props :: Data
  local_attrs :: "Data option"
  local_proxy :: "Data option"

definition setProp :: "string \<Rightarrow> jsvalue \<Rightarrow> resolve_locals \<Rightarrow> resolve_locals" where
  "setProp k v st =
     st\<lparr>local_props := setProperty (local_props st) k v,
        local_proxy := map_option (\<lambda>p. setProperty p k v) (local_proxy st)\<rparr>"

definition setAttr :: "string \<Rightarrow> jsvalue \<Rightarrow> resolve_locals \<Rightarrow> resolve_locals" where
  "setAttr k v st =
     st\<lparr>local_attrs :=
          Some (setProperty (case local_attrs st of None \<Rightarrow> [] | Some a \<Rightarrow> a) k v)\<rparr>"

text \<open>
  The loop over the keys of \<^verbatim>\<open>rawProps\<close>. The normalised options are \<open>None\<close> when the
  component declares no props.
\<close>

fun routeRawProps ::
  "(string \<times> NormalizedProp) list option \<Rightarrow> string list option \<Rightarrow> Data \<Rightarrow>
   resolve_locals \<Rightarrow> exn + resolve_locals" where
  "routeRawProps options emits [] st = Inr st"
| "routeRawProps options emits ((k, v) # rawProps) st =
     (if isReservedProp k then routeRawProps options emits rawProps st
      else if (case options of None \<Rightarrow> False | Some os \<Rightarrow> hasOwn os (camelize k))
      then routeRawProps options emits rawProps (setProp (camelize k) v st)
      else (case emits of
              None \<Rightarrow> routeRawProps options emits rawProps (setAttr k v st)
            | Some em \<Rightarrow>
                (case isListener em k of
                   Inl e \<Rightarrow> Inl e
                 | Inr l \<Rightarrow>
                     routeRawProps options emits rawProps (if \<not> l then setAttr k v st else st))))"

text \<open>One round of the loop over \<^verbatim>\<open>needCastKeys\<close>: default values and boolean casting.\<close>

definition castProp ::
  "(string \<times> NormalizedProp) list \<Rightarrow> string \<Rightarrow> resolve_locals \<Rightarrow> resolve_locals" where
  "castProp options k st =
     (case map_of options k of
        None \<Rightarrow> st
      | Some None \<Rightarrow> st
      | Some (Some opt) \<Rightarrow>
          (let hasDefault = (default_option opt \<noteq> None);
               currentValue = getProperty (local_props st) k;
               st1 = (if hasDefault \<and> currentValue = Undefined
                      then setProp k (case default_option opt of
                                        Some (DefaultValue d) \<Rightarrow> d
                                      | Some (DefaultFactory d) \<Rightarrow> d
                                      | None \<Rightarrow> Undefined) st
                      else st)
           in if shouldCast opt
              then (if \<not> hasOwn (local_props st1) k \<and> \<not> hasDefault
                    then setProp k (Boolean False) st1
                    else if shouldCastTrue opt \<and>
                            (currentValue = String [] \<or> currentValue = String (hyphenate k))
                    then setProp k (Boolean True) st1
                    else st1)
              else st1))"

definition castProps ::
  "(string \<times> NormalizedProp) list \<Rightarrow> string list \<Rightarrow> resolve_locals \<Rightarrow> resolve_locals" where
  "castProps options needCastKeys st = foldl (\<lambda>s k. castProp options k s) st needCastKeys"

text \<open>
  \<^verbatim>\<open>resolveProps\<close> in a production build, where the validation of props is compiled
  out. The constant \<^verbatim>\<open>PatchFlags.FULL_PROPS\<close> and the enum \<^verbatim>\<open>ShapeFlags\<close> are parameters.
  The result is \<open>None\<close> where \<open>normalizePropsOptions\<close> is, otherwise the exception thrown
  or the instance after the call.
\<close>

definition resolveProps ::
  "int \<Rightarrow> ShapeFlags \<Rightarrow> ComponentInternalInstance \<Rightarrow> Data option \<Rightarrow>
   (exn + ComponentInternalInstance) option" where
  "resolveProps FULL_PROPS sf instance rawProps =
     (let hasDeclaredProps = (type_props instance \<noteq> None)
      in if rawProps = None \<and> \<not> hasDeclaredProps
         then Some (Inr (instance\<lparr>instance_props := [], instance_attrs := []\<rparr>))
         else
           (case (case type_props instance of
                    None \<Rightarrow> Some None
                  | Some raw \<Rightarrow> map_option Some (normalizePropsOptions raw)) of
              None \<Rightarrow> None
            | Some normalizedEntry \<Rightarrow>
                Some
                  (case normalizeEmitsOptions (type_emits instance) of
                     Inl e \<Rightarrow> Inl e
                   | Inr emits \<Rightarrow>
                       (case routeRawProps (map_option fst normalizedEntry) emits
                               (case rawProps of None \<Rightarrow> [] | Some r \<Rightarrow> r)
                               \<lparr>local_props = [], local_attrs = None,
                                local_proxy = propsProxy instance\<rparr> of
                          Inl e \<Rightarrow> Inl e
                        | Inr st1 \<Rightarrow>
                            (let st2 = (case normalizedEntry of
                                          None \<Rightarrow> st1
                                        | Some (options, needCastKeys) \<Rightarrow>
                                            castProps options needCastKeys st1);
                                 proxy =
                                   (if hasDeclaredProps \<and>
                                       (vnode_patchFlag instance = 0 \<or>
                                        vnode_patchFlag instance AND FULL_PROPS \<noteq> 0)
                                    then map_option
                                           (filter (\<lambda>p. hasOwn (local_props st2) (fst p)))
                                           (local_proxy st2)
                                    else local_proxy st2);
                                 attrs = (case local_attrs st2 of None \<Rightarrow> [] | Some a \<Rightarrow> a)
                             in Inr (instance
                                      \<lparr>propsProxy := proxy,
                                       instance_props :=
                                         (if vnode_shapeFlag instance AND FUNCTIONAL_COMPONENT sf \<noteq> 0
                                             \<and> \<not> hasDeclaredProps
                                          then attrs else local_props st2),
                                       instance_attrs := attrs,
                                       LOCKED := True\<rparr>))))))"

text \<open>
  A component instance for concrete evaluation; the function passed as \<^verbatim>\<open>onClick\<close> is
  \<open>Function 1\<close>.
\<close>

definition exampleInstance ::
  "ComponentPropsOptions option \<Rightarrow> EmitsOptions option \<Rightarrow> ComponentInternalInstance" where
  "exampleInstance ps es =
     \<lparr>type_props = ps, type_emits = es, propsProxy = None,
      vnode_patchFlag = 0, vnode_shapeFlag = 4,
      instance_props = [], instance_attrs = [], LOCKED = True\<rparr>"



definition booleanIndex :: "PropType \<Rightarrow> int" where
  "booleanIndex t = getTypeIndex (NamedCtor ''Boolean'') t"

definition stringIndex :: "PropType \<Rightarrow> int" where
  "stringIndex t = getTypeIndex (NamedCtor ''String'') t"





subsection \<open>Properties of the buffer\<close>

lemma appendToLast_snoc:
  "appendToLast (xs @ [x]) s = xs @ [IString (itemToString x @ s)]"
  by (induction xs s rule: appendToLast.induct) auto

lemma noAdjacentStrings_snoc:
  "noAdjacentStrings (xs @ [y]) \<longleftrightarrow>
     noAdjacentStrings xs \<and> (xs \<noteq> [] \<longrightarrow> \<not> (isString (last xs) \<and> isString y))"
  by (induction xs rule: noAdjacentStrings.induct) auto

lemma unrollBuffer_append: "unrollBuffer (xs @ ys) = unrollBuffer xs @ unrollBuffer ys"
  by (induction xs) auto

lemma unroll_strings:
  "unrollItem r = concat (resolvedStrings r)"
  "unrollBuffer b = concat (concat (map resolvedStrings b))"
  by (induction r and b rule: unrollItem_unrollBuffer.induct) auto

text \<open>
  The invariant of the closure: \<^verbatim>\<open>appendable\<close> says exactly that the array ends in a
  string, and no two neighbours are strings.
\<close>

definition bufferInv :: "SSRBufferState \<Rightarrow> bool" where
  "bufferInv st \<longleftrightarrow>
     noAdjacentStrings (buffer st) \<and>
     (appendable st \<longleftrightarrow> buffer st \<noteq> [] \<and> isString (last (buffer st)))"

lemma bufferInv_create: "bufferInv createBuffer"
  by (simp add: bufferInv_def createBuffer_def)

lemma bufferInv_ends_in_string:
  assumes "bufferInv st" and "appendable st"
  obtains xs u where "buffer st = xs @ [IString u]"
  using assms unfolding bufferInv_def
  by (metis append_butlast_last_id isString.elims(2))

lemma bufferInv_push:
  assumes inv: "bufferInv st"
  shows "bufferInv (push item st)"
proof (cases "appendable st \<and> isString item")
  case True
  with inv obtain xs u where "buffer st = xs @ [IString u]"
    by (auto elim: bufferInv_ends_in_string)
  with inv True show ?thesis
    by (auto simp: bufferInv_def push_def Let_def appendToLast_snoc noAdjacentStrings_snoc)
next
  case False
  with inv show ?thesis
    by (auto simp: bufferInv_def push_def Let_def noAdjacentStrings_snoc)
qed

lemma pushAll_snoc: "pushAll (items @ [item]) = push item (pushAll items)"
  by (simp add: pushAll_def)

lemma bufferInv_pushAll: "bufferInv (pushAll items)"
proof (induction items rule: rev_induct)
  case Nil
  show ?case by (simp add: pushAll_def bufferInv_create)
next
  case (snoc x xs)
  then show ?case by (simp add: pushAll_snoc bufferInv_push)
qed

lemma hasAsync_pushAll:
  "hasAsync (pushAll items) \<longleftrightarrow> (\<exists>i \<in> set items. \<not> isString i \<and> \<not> isArray i)"
  by (induction items rule: rev_induct)
     (auto simp: pushAll_snoc push_def Let_def pushAll_def createBuffer_def)

lemma unroll_push:
  assumes "bufferInv st"
  shows "unrollBuffer (resolveAll (buffer (push item st))) =
         unrollBuffer (resolveAll (buffer st)) @ concat (pushedStrings item)"
proof (cases "appendable st \<and> isString item")
  case True
  with assms obtain xs u where b: "buffer st = xs @ [IString u]"
    by (auto elim: bufferInv_ends_in_string)
  from True obtain t where t: "item = IString t" by (cases item) auto
  show ?thesis using True b t
    by (simp add: push_def Let_def appendToLast_snoc resolveAll_def unrollBuffer_append
        pushedStrings_def)
next
  case False
  then show ?thesis
    by (cases item)
       (auto simp: push_def Let_def resolveAll_def unrollBuffer_append pushedStrings_def
          unroll_strings)
qed

lemma unroll_pushAll:
  "unrollBuffer (resolveAll (buffer (pushAll items))) =
     concat (concat (map pushedStrings items))"
proof (induction items rule: rev_induct)
  case Nil
  show ?case by (simp add: pushAll_def createBuffer_def resolveAll_def)
next
  case (snoc x xs)
  then show ?case
    by (simp add: pushAll_snoc unroll_push [OF bufferInv_pushAll])
qed

lemma push_string_twice:
  "\<exists>pre u. buffer (pushAll (items @ [IString s])) = pre @ [IString u] \<and>
            buffer (pushAll (items @ [IString s, IString t])) = pre @ [IString (u @ t)]"
proof -
  let ?st = "pushAll (items @ [IString s])"
  have app: "appendable ?st" by (simp add: pushAll_snoc push_def Let_def)
  obtain pre u where b: "buffer ?st = pre @ [IString u]"
    using bufferInv_ends_in_string [OF bufferInv_pushAll app] by blast
  have "pushAll (items @ [IString s, IString t]) = push (IString t) ?st"
    using pushAll_snoc [of "items @ [IString s]" "IString t"] by simp
  then have "buffer (pushAll (items @ [IString s, IString t])) = pre @ [IString (u @ t)]"
    using app b by (simp add: push_def Let_def appendToLast_snoc)
  with b show ?thesis by blast
qed

text \<open>
  Claim C9. For every sequence of pushes on a buffer made by \<^verbatim>\<open>createBuffer\<close>: the
  array never holds two neighbouring strings, and a string pushed right after a string
  is appended to the last entry, the number of entries staying the same; the
  \<^verbatim>\<open>hasAsync\<close> flag is set exactly when some pushed item was neither a string nor an
  array (so it stays set whatever is pushed afterwards); and unrolling the resolved
  array gives the concatenation, in push order, of all the pushed string content.
\<close>

theorem createBuffer_push_unroll:
  "noAdjacentStrings (buffer (pushAll items)) \<and>
   (\<exists>pre u. buffer (pushAll (items @ [IString s])) = pre @ [IString u] \<and>
             buffer (pushAll (items @ [IString s, IString t])) = pre @ [IString (u @ t)]) \<and>
   (hasAsync (pushAll items) \<longleftrightarrow> (\<exists>i \<in> set items. \<not> isString i \<and> \<not> isArray i)) \<and>
   unrollBuffer (resolveAll (buffer (pushAll items))) =
     concat (concat (map pushedStrings items))"
  using bufferInv_pushAll [of items] push_string_twice [of items s t]
    hasAsync_pushAll [of items] unroll_pushAll [of items]
  unfolding bufferInv_def by blast

theorem createBuffer_push_unroll_witness:
  "hasAsync (pushAll [IString ''<div>'', IString ''a'', IPromise [RString ''b''], IString ''</div>''])
   \<and> unrollBuffer (resolveAll (buffer
        (pushAll [IString ''<div>'', IString ''a'', IPromise [RString ''b''], IString ''</div>''])))
     = ''<div>ab</div>''
   \<and> noAdjacentStrings (buffer
        (pushAll [IString ''<div>'', IString ''a'', IPromise [RString ''b''], IString ''</div>'']))"
  using createBuffer_push_unroll
    [of "[IString ''<div>'', IString ''a'', IPromise [RString ''b''], IString ''</div>'']" "[]" "[]"]
  by (simp add: pushedStrings_def)

section \<open>Properties of refs\<close>

text \<open>
  Claim C10. Every write to the \<^verbatim>\<open>value\<close> property of a ref calls \<^verbatim>\<open>trigger\<close> with the
  operation \<^verbatim>\<open>SET\<close> on the key \<^verbatim>\<open>value\<close>, whatever the value written: the setter has
  no comparison of the old and the new value. In particular, reading a fresh ref and
  writing back what was read still notifies.
\<close>

theorem ref_set_value_always_triggers:
  "calls (set_value DEV reactive r newVal w) =
     calls w @ [Trigger r SET ''value'' (if DEV then Some newVal else None)]
   \<and> (let (x, w1) = ref reactive (Number n) w0;
          r0 = (case x of RefObject a \<Rightarrow> a | _ \<Rightarrow> 0);
          (v, w2) = get_value r0 w1;
          w3 = set_value DEV reactive r0 v w2
      in v = Number n \<and> raws w3 r0 = raws w1 r0 \<and>
         calls w3 = calls w0 @ [Track r0 GET ''value'',
                                Trigger r0 SET ''value'' (if DEV then Some v else None)])"
  by (simp add: set_value_def get_value_def ref_def convert_def Let_def)

section \<open>Properties of virtual nodes\<close>

text \<open>
  Claim C4, as the claim states it, fails: \<^verbatim>\<open>normalizeVNode\<close> tests
  \<^verbatim>\<open>child.el === null\<close> and returns the child itself in that case. A vnode at address 0
  that is mounted (\<^verbatim>\<open>el\<close> set) is not returned as the same object, and one that is not
  mounted is returned as it is, the store unchanged.
\<close>

theorem normalizeVNode_mounted_counterexample:
  "fst (normalizeVNode exampleShapeFlags (ChildVNode 0) (exampleWorld (Some 7))) \<noteq> 0 \<and>
   normalizeVNode exampleShapeFlags (ChildVNode 0) (exampleWorld None) = (0, exampleWorld None)"
  by (simp add: exampleWorld_def exampleVNode_def cloneVNode_def alloc_vnode_def)

text \<open>
  Claim C4, amended. For every vnode child passed to \<^verbatim>\<open>normalizeVNode\<close>: a child that is
  not mounted (\<^verbatim>\<open>el\<close> is null) is returned unchanged as the same object, and nothing is
  allocated; a child that is already mounted (\<^verbatim>\<open>el\<close> set) is cloned: the result is a
  fresh object, different from the child, that agrees with the child on every field
  except \<^verbatim>\<open>component\<close>, \<^verbatim>\<open>suspense\<close>, \<^verbatim>\<open>el\<close> and \<^verbatim>\<open>anchor\<close>, which are null, and
  the child itself and every other vnode are left as they were.
\<close>

theorem normalizeVNode_object_child:
  "(el (vnodes w a) = None \<longrightarrow> normalizeVNode sf (ChildVNode a) w = (a, w)) \<and>
   (el (vnodes w a) \<noteq> None \<and> a < next_vnode w \<longrightarrow>
      (case normalizeVNode sf (ChildVNode a) w of
         (b, w') \<Rightarrow>
           b = next_vnode w \<and> b \<noteq> a \<and> next_vnode w' = Suc (next_vnode w) \<and>
           vnodes w' b = (vnodes w a)\<lparr>component := None, suspense := None,
                                       el := None, anchor := None\<rparr> \<and>
           (\<forall>c. c \<noteq> b \<longrightarrow> vnodes w' c = vnodes w c)))"
  by (auto simp: cloneVNode_def alloc_vnode_def Let_def)

theorem normalizeVNode_object_child_witness:
  "normalizeVNode exampleShapeFlags (ChildVNode 0) (exampleWorld None) = (0, exampleWorld None) \<and>
   el (vnodes (exampleWorld (Some 7)) 0) \<noteq> None \<and> 0 < next_vnode (exampleWorld (Some 7)) \<and>
   fst (normalizeVNode exampleShapeFlags (ChildVNode 0) (exampleWorld (Some 7))) = 1"
  using normalizeVNode_object_child [of "exampleWorld None" 0 exampleShapeFlags]
    normalizeVNode_object_child [of "exampleWorld (Some 7)" 0 exampleShapeFlags]
  by (simp add: exampleWorld_def exampleVNode_def split: prod.splits)

section \<open>Properties of the \<^verbatim>\<open>v-for\<close> transform\<close>

text \<open>
  Claim C3, as the claim states it, fails: the alias expression
  \<^verbatim>\<open>(item, index) in list\<close> does not parse to value \<^verbatim>\<open>item\<close>, no key, index \<^verbatim>\<open>index\<close>
  and source \<^verbatim>\<open>list\<close>.
\<close>

theorem parseAliasExpressions_counterexample:
  "map_option aliasContents (parseAliasExpressions ''(item, index) in list'')
     \<noteq> Some (Some ''item'', None, Some ''index'', ''list'')"
  by code_simp

lemma parseAliasExpressions_example:
  "parseAliasExpressions ''(item, index) in list'' =
     Some \<lparr>source = \<lparr>alias_offset = 17, content = ''list''\<rparr>,
           value = Some \<lparr>alias_offset = 1, content = ''item''\<rparr>,
           key_alias = Some \<lparr>alias_offset = 7, content = ''index''\<rparr>, index = None\<rparr>"
  by code_simp

text \<open>
  Claim C3, amended. Parsing the alias expression \<^verbatim>\<open>(item, index) in list\<close> gives the
  value alias \<^verbatim>\<open>item\<close>, the key alias \<^verbatim>\<open>index\<close>, no index alias, and the source
  \<^verbatim>\<open>list\<close>: the first name after a comma is the key, and only a second one is the
  index. The transform replaces the element by a list node with these aliases.
\<close>

theorem parseAliasExpressions_item_index:
  "map_option aliasContents (parseAliasExpressions ''(item, index) in list'')
     = Some (Some ''item'', Some ''index'', None, ''list'')
   \<and> (case transformFor DEV BROWSER exampleElement
             (exampleDirective (Some ''(item, index) in list'')) of
        Inr (ReplaceNode n) \<Rightarrow>
          map_option exp_content (valueAlias n) = Some ''item'' \<and>
          map_option exp_content (keyAlias n) = Some ''index'' \<and>
          objectIndexAlias n = None \<and>
          map_option exp_content (for_source n) = Some ''list''
      | _ \<Rightarrow> False)"
  by (simp add: parseAliasExpressions_example aliasContents_def transformFor_def
      exampleDirective_def maybeCreateExpression_def getInnerRange_def assert_def)

text \<open>
  Claim C6. A \<^verbatim>\<open>v-for\<close> directive without an expression makes the transform call
  \<^verbatim>\<open>context.onError\<close> with the error of code \<^verbatim>\<open>X_FOR_NO_EXPRESSION\<close>; one whose
  expression the pattern \<^verbatim>\<open>forAliasRE\<close> does not match makes it call
  \<^verbatim>\<open>context.onError\<close> with the error of code \<^verbatim>\<open>X_FOR_MALFORMED_EXPRESSION\<close>. In both
  cases the error carries the start position of the directive, and the transform
  returns normally: it throws nothing.
\<close>

theorem transformFor_reports_errors:
  "(exp dir = None \<longrightarrow>
      transformFor DEV BROWSER node dir =
        Inr (OnError (createCompilerError DEV BROWSER X_FOR_NO_EXPRESSION
                       (loc_start (dir_loc dir)))))
   \<and> (\<forall>e. exp dir = Some e \<and> forAliasRE (exp_content e) = None \<longrightarrow>
      transformFor DEV BROWSER node dir =
        Inr (OnError (createCompilerError DEV BROWSER X_FOR_MALFORMED_EXPRESSION
                       (loc_start (dir_loc dir)))))
   \<and> code (createCompilerError DEV BROWSER c l) = c
   \<and> loc (createCompilerError DEV BROWSER c l) = l"
  by (simp add: transformFor_def parseAliasExpressions_def createCompilerError_def)

lemma forAliasRE_item: "forAliasRE ''item'' = None"
  by code_simp

theorem transformFor_reports_errors_witness:
  "exp (exampleDirective None) = None
   \<and> transformFor True False exampleElement (exampleDirective None) =
       Inr (OnError \<lparr>code = X_FOR_NO_EXPRESSION,
                     loc = \<lparr>offset = 5, line = 1, column = 6\<rparr>,
                     message = ''v-for has no expression (1:6)''\<rparr>)
   \<and> map_option exp_content (exp (exampleDirective (Some ''item''))) = Some ''item''
   \<and> forAliasRE ''item'' = None
   \<and> transformFor True False exampleElement (exampleDirective (Some ''item'')) =
       Inr (OnError \<lparr>code = X_FOR_MALFORMED_EXPRESSION,
                     loc = \<lparr>offset = 5, line = 1, column = 6\<rparr>,
                     message = ''v-for has invalid expression (1:6)''\<rparr>)"
proof -
  have s: "numberToString 1 = ''1''" "numberToString 6 = ''6''"
    by code_simp+
  show ?thesis
    using transformFor_reports_errors [of "exampleDirective None" True False exampleElement]
      transformFor_reports_errors [of "exampleDirective (Some ''item'')" True False exampleElement]
    by (simp add: exampleDirective_def createCompilerError_def forAliasRE_item s)
qed

section \<open>Properties of the attribute helpers\<close>


lemma escapeHtml_append: "escapeHtml (a @ b) = escapeHtml a @ escapeHtml b"
  by (simp add: escapeHtml_def)












section \<open>Properties of script compilation\<close>





text \<open>
  Claim C8, as the claim states it, fails: a script block in another language whose
  content the parser accepts is returned as it is, without binding metadata; and so is
  a JavaScript block that parses, when a style block declares custom-property bindings
  and the injection of the calls for them throws.
\<close>

theorem compileScript_other_lang_counterexample:
  "babel_parse exampleEnv ''export default {}''
     (compilePlugins exampleEnv (exampleSfc (Some ''coffee'') ''export default {}'') exampleOptions)
     = Inr [ExportDefaultDeclaration (ObjectExpression [])]
   \<and> compileScript exampleEnv (exampleSfc (Some ''coffee'') ''export default {}'') exampleOptions
     = Inr (exampleScript (Some ''coffee'') ''export default {}'')
   \<and> bindings (exampleScript (Some ''coffee'') ''export default {}'') = None
   \<and> babel_parse exampleEnv ''export default {}''
     (compilePlugins exampleEnv (exampleSfcWithVars ''export default {}'') exampleOptions)
     = Inr [ExportDefaultDeclaration (ObjectExpression [])]
   \<and> compileScript exampleEnv (exampleSfcWithVars ''export default {}'') exampleOptions
     = Inr (exampleScript None ''export default {}'')
   \<and> bindings (exampleScript None ''export default {}'') = None"
  by (simp add: exampleEnv_def exampleSfc_def exampleSfcWithVars_def exampleScript_def
      compileScript_def truthyLang_def hasCssVars_def)

text \<open>
  Claim C8, amended. For every single-file component with a plain script block and no
  setup-script block, \<^verbatim>\<open>compileScript\<close> throws nothing. If parsing the content of the
  block fails, or the block is in a language other than JavaScript and TypeScript, the
  block is returned unchanged. If the language is absent, empty or \<^verbatim>\<open>ts\<close> and parsing
  succeeds, the returned block carries the binding metadata inferred from the parsed
  statements, and the statements; its content is unchanged when no style block
  declares custom-property bindings. This holds provided that, when a style block does
  declare such bindings, injecting the calls for them does not throw; when it throws,
  the block is returned unchanged.
\<close>

theorem compileScript_plain_script:
  assumes "scriptSetup sfc = None" and "script sfc = Some scr"
  shows
    "(\<exists>blk. compileScript env sfc options = Inr blk)
     \<and> ((\<exists>e. babel_parse env (script_content scr) (compilePlugins env sfc options) = Inl e)
          \<longrightarrow> compileScript env sfc options = Inr scr)
     \<and> (truthyLang (lang scr) \<and> lang scr \<noteq> Some ''ts''
          \<longrightarrow> compileScript env sfc options = Inr scr)
     \<and> (\<forall>ast. babel_parse env (script_content scr) (compilePlugins env sfc options) = Inr ast
              \<and> (lang scr = None \<or> lang scr = Some [] \<or> lang scr = Some ''ts'')
          \<longrightarrow> (if hasCssVars sfc
               then (case injectCssVarsCalls env sfc (compilePlugins env sfc options) of
                       Inl e \<Rightarrow> compileScript env sfc options = Inr scr
                     | Inr c \<Rightarrow>
                         compileScript env sfc options =
                           Inr (scr\<lparr>script_content := c,
                                    bindings := Some (analyzeScriptBindings ast),
                                    scriptAst := Some ast\<rparr>))
               else compileScript env sfc options =
                      Inr (scr\<lparr>bindings := Some (analyzeScriptBindings ast),
                               scriptAst := Some ast\<rparr>)))"
  using assms
  by (auto simp: compileScript_def Let_def truthyLang_def split: sum.splits)

theorem compileScript_plain_script_witness:
  "scriptSetup (exampleSfc None ''export default {}'') = None
   \<and> script (exampleSfc None ''export default {}'') = Some (exampleScript None ''export default {}'')
   \<and> compileScript exampleEnv (exampleSfc None ''export default {}'') exampleOptions =
       Inr ((exampleScript None ''export default {}'')
             \<lparr>bindings := Some Map.empty,
              scriptAst := Some [ExportDefaultDeclaration (ObjectExpression [])]\<rparr>)
   \<and> compileScript exampleEnv (exampleSfc None ''export default <'') exampleOptions =
       Inr (exampleScript None ''export default <'')"
  using compileScript_plain_script
      [of "exampleSfc None ''export default {}''" "exampleScript None ''export default {}''"
          exampleEnv exampleOptions]
    compileScript_plain_script
      [of "exampleSfc None ''export default <''" "exampleScript None ''export default <''"
          exampleEnv exampleOptions]
  by (simp add: exampleSfc_def exampleScript_def exampleEnv_def hasCssVars_def
      analyzeBindingsFromOptions_def)

section \<open>Properties of props resolution\<close>

lemma camelize_examples:
  "camelize ''msg'' = ''msg''" "camelize ''foo'' = ''foo''" "camelize ''onClick'' = ''onClick''"
  "camelize ''Foo-bar'' = ''FooBar''"
  by code_simp+

text \<open>
  Claim C1. For every component that declares the props \<^verbatim>\<open>['msg']\<close> and no emits,
  whatever its props proxy and the flags of its vnode, resolving the raw properties
  \<^verbatim>\<open>{msg: 'hi', foo: 'bar', onClick: fn}\<close> throws nothing and gives the props
  \<^verbatim>\<open>{msg: 'hi'}\<close> and the attrs \<^verbatim>\<open>{foo: 'bar', onClick: fn}\<close>. With the reserved keys
  \<^verbatim>\<open>key\<close> and \<^verbatim>\<open>ref\<close> among the raw properties, and an undeclared key in mixed case,
  the reserved keys are in neither object, and the undeclared key is in the attrs as
  it was written.
\<close>

theorem resolveProps_routes_props_and_attrs:
  assumes "type_props instance = Some (PropsArray [''msg''])"
    and "type_emits instance = None"
  shows
    "(\<exists>inst'. resolveProps FULL_PROPS sf instance
         (Some [(''msg'', String ''hi''), (''foo'', String ''bar''), (''onClick'', fn)])
         = Some (Inr inst')
       \<and> instance_props inst' = [(''msg'', String ''hi'')]
       \<and> instance_attrs inst' = [(''foo'', String ''bar''), (''onClick'', fn)])
     \<and> (\<exists>inst'. resolveProps FULL_PROPS sf instance
         (Some [(''key'', k), (''msg'', v), (''ref'', r), (''Foo-bar'', w), (''onClick'', fn)])
         = Some (Inr inst')
       \<and> instance_props inst' = [(''msg'', v)]
       \<and> instance_attrs inst' = [(''Foo-bar'', w), (''onClick'', fn)])"
  using assms
  by (simp add: resolveProps_def normalizePropsOptions_def normalizeEmitsOptions_def
      validatePropName_def camelize_examples isReservedProp_def hasOwn_def setProp_def
      setAttr_def castProps_def Let_def)

theorem resolveProps_routes_props_and_attrs_witness:
  "type_props (exampleInstance (Some (PropsArray [''msg''])) None) = Some (PropsArray [''msg''])
   \<and> type_emits (exampleInstance (Some (PropsArray [''msg''])) None) = None
   \<and> resolveProps 16 exampleShapeFlags (exampleInstance (Some (PropsArray [''msg''])) None)
        (Some [(''msg'', String ''hi''), (''foo'', String ''bar''), (''onClick'', Function 1)])
      = Some (Inr ((exampleInstance (Some (PropsArray [''msg''])) None)
                    \<lparr>instance_props := [(''msg'', String ''hi'')],
                     instance_attrs := [(''foo'', String ''bar''), (''onClick'', Function 1)]\<rparr>))"
  using resolveProps_routes_props_and_attrs
    [of "exampleInstance (Some (PropsArray [''msg''])) None" 16 exampleShapeFlags "Function 1"]
  by (simp add: exampleInstance_def resolveProps_def normalizePropsOptions_def
      normalizeEmitsOptions_def validatePropName_def camelize_examples isReservedProp_def
      hasOwn_def setProp_def setAttr_def castProps_def Let_def)


























end
